theory Spec2Isabelle
  imports Complex_Main "HOL-Library.Log_Nat"
begin

section \<open>Python values\<close>

text \<open>
  The values that the SJSON decoder, the table processor and the exporter pass around.
  A Python float is the finite double with the given exact rational value, or one of the
  two infinities (NaN is not part of the model: neither the decoder nor the rounding of a
  finite number produces it). A dict is an association list in insertion order whose keys
  are pairwise unequal. A key is \<open>None\<close>, a \<open>bool\<close>, an \<open>int\<close>, a \<open>float\<close>, a
  string, or the class object \<open>jbeam_utils.Metadata\<close>. An instance of that class is
  \<open>PMeta\<close> of its \<open>_data\<close> dict.
\<close>

datatype pyerr =
  KeyError | IndexError | TypeError | AttributeError | OverflowError | UnboundLocalError

datatype pyfloat = Fin rat | PosInf | NegInf

datatype pykey = KNone | KBool bool | KInt int | KFloat pyfloat | KStr string | KMeta

datatype pyval =
    PNone
  | PBool bool
  | PInt int
  | PFloat pyfloat
  | PStr string
  | PList "pyval list"
  | PDict "(pykey \<times> pyval) list"
  | PMeta "(pykey \<times> pyval) list"

type_synonym pydict = "(pykey \<times> pyval) list"

text \<open>
  What a key is hashed and compared by: a number by its value, whatever its type
  (\<open>True == 1 == 1.0\<close>, and the three hash alike), any other key by itself.
\<close>

fun key_class :: "pykey \<Rightarrow> pyfloat + pykey" where
  "key_class (KBool b) = Inl (Fin (if b then 1 else 0))"
| "key_class (KInt i) = Inl (Fin (of_int i))"
| "key_class (KFloat f) = Inl f"
| "key_class k = Inr k"

definition key_eq :: "pykey \<Rightarrow> pykey \<Rightarrow> bool" where
  "key_eq a b = (key_class a = key_class b)"

text \<open>\<open>d.get(k)\<close>, \<open>k in d\<close> and \<open>d[k]\<close>.\<close>

fun pd_get :: "pydict \<Rightarrow> pykey \<Rightarrow> pyval option" where
  "pd_get [] k = None"
| "pd_get ((k', v') # d) k = (if key_eq k' k then Some v' else pd_get d k)"

definition pd_has :: "pydict \<Rightarrow> pykey \<Rightarrow> bool" where
  "pd_has d k = (pd_get d k \<noteq> None)"

definition pd_item :: "pydict \<Rightarrow> pykey \<Rightarrow> pyerr + pyval" where
  "pd_item d k = (case pd_get d k of None \<Rightarrow> Inl KeyError | Some v \<Rightarrow> Inr v)"

text \<open>\<open>d[k] = v\<close>: an existing key keeps its place and its key object, a new key goes
  to the end.\<close>

fun pd_set :: "pydict \<Rightarrow> pykey \<Rightarrow> pyval \<Rightarrow> pydict" where
  "pd_set [] k v = [(k, v)]"
| "pd_set ((k', v') # d) k v = (if key_eq k' k then (k', v) # d else (k', v') # pd_set d k v)"

text \<open>\<open>del d[k]\<close> on a key that is present.\<close>

fun pd_del :: "pydict \<Rightarrow> pykey \<Rightarrow> pydict" where
  "pd_del [] k = []"
| "pd_del ((k', v') # d) k = (if key_eq k' k then d else (k', v') # pd_del d k)"

text \<open>\<open>d.update(e)\<close>\<close>

fun pd_update :: "pydict \<Rightarrow> pydict \<Rightarrow> pydict" where
  "pd_update d [] = d"
| "pd_update d ((k, v) # e) = pd_update (pd_set d k v) e"

text \<open>
  The same operations for the dicts of the exporter whose keys are all node ids, or all
  position triples: there Python's equality of keys is equality.
\<close>

fun dict_set :: "('k \<times> 'v) list \<Rightarrow> 'k \<Rightarrow> 'v \<Rightarrow> ('k \<times> 'v) list" where
  "dict_set [] k v = [(k, v)]"
| "dict_set ((k', v') # d) k v = (if k' = k then (k', v) # d else (k', v') # dict_set d k v)"

fun dict_del :: "('k \<times> 'v) list \<Rightarrow> 'k \<Rightarrow> ('k \<times> 'v) list" where
  "dict_del [] k = []"
| "dict_del ((k', v') # d) k = (if k' = k then d else (k', v') # dict_del d k)"

definition dict_has :: "('k \<times> 'v) list \<Rightarrow> 'k \<Rightarrow> bool" where
  "dict_has d k = (map_of d k \<noteq> None)"

definition dict_item :: "('k \<times> 'v) list \<Rightarrow> 'k \<Rightarrow> pyerr + 'v" where
  "dict_item d k = (case map_of d k of None \<Rightarrow> Inl KeyError | Some v \<Rightarrow> Inr v)"

text \<open>\<open>d.pop(k)\<close> without a default raises \<open>KeyError\<close> on a missing key.\<close>

definition dict_pop :: "('k \<times> 'v) list \<Rightarrow> 'k \<Rightarrow> pyerr + ('k \<times> 'v) list" where
  "dict_pop d k = (if dict_has d k then Inr (dict_del d k) else Inl KeyError)"

text \<open>The numeric value of a number (\<open>bool\<close> is a subclass of \<open>int\<close>).\<close>

fun py_num :: "pyval \<Rightarrow> pyfloat option" where
  "py_num (PBool b) = Some (Fin (if b then 1 else 0))"
| "py_num (PInt i) = Some (Fin (of_int i))"
| "py_num (PFloat f) = Some f"
| "py_num _ = None"

text \<open>
  Python's \<open>==\<close>. Numbers are compared by value across \<open>bool\<close>, \<open>int\<close> and
  \<open>float\<close>. Two lists are equal when they have the same length and equal elements at
  each index. Two dicts are equal when they have the same number of items and every item
  of the first has its key in the second with an equal value there, whatever the order
  (\<open>py_eq_item k v e\<close>: the dict \<open>e\<close> has an item whose key equals \<open>k\<close> and whose value
  equals \<open>v\<close>; a dict has one item at most with that key). Values of different kinds are
  unequal. The class \<open>Metadata\<close> is not among the sources: two instances are compared by
  their data, and no function modelled here compares two of them.
\<close>

fun py_eq :: "pyval \<Rightarrow> pyval \<Rightarrow> bool"
  and py_eq_list :: "pyval list \<Rightarrow> pyval list \<Rightarrow> bool"
  and py_eq_items :: "pydict \<Rightarrow> pydict \<Rightarrow> bool"
  and py_eq_item :: "pykey \<Rightarrow> pyval \<Rightarrow> pydict \<Rightarrow> bool" where
  "py_eq PNone b = (b = PNone)"
| "py_eq (PBool x) b = (py_num b = Some (Fin (if x then 1 else 0)))"
| "py_eq (PInt i) b = (py_num b = Some (Fin (of_int i)))"
| "py_eq (PFloat f) b = (py_num b = Some f)"
| "py_eq (PStr s) b = (b = PStr s)"
| "py_eq (PList xs) b = (case b of PList ys \<Rightarrow> py_eq_list xs ys | _ \<Rightarrow> False)"
| "py_eq (PDict d) b =
     (case b of PDict e \<Rightarrow> length d = length e \<and> py_eq_items d e | _ \<Rightarrow> False)"
| "py_eq (PMeta d) b =
     (case b of PMeta e \<Rightarrow> length d = length e \<and> py_eq_items d e | _ \<Rightarrow> False)"
| "py_eq_list [] ys = (ys = [])"
| "py_eq_list (x # xs) ys =
     (case ys of [] \<Rightarrow> False | y # ys' \<Rightarrow> py_eq x y \<and> py_eq_list xs ys')"
| "py_eq_items [] e = True"
| "py_eq_items ((k, v) # d) e = (py_eq_item k v e \<and> py_eq_items d e)"
| "py_eq_item k v [] = False"
| "py_eq_item k v ((k', w) # e) = ((key_eq k k' \<and> py_eq v w) \<or> py_eq_item k v e)"

text \<open>
  The key that a value is as a dict key. Lists and dicts are unhashable. (An instance of
  \<open>Metadata\<close> is no key of the model either; no cell of a decoded table is one.)
\<close>

fun to_key :: "pyval \<Rightarrow> pykey option" where
  "to_key PNone = Some KNone"
| "to_key (PBool b) = Some (KBool b)"
| "to_key (PInt i) = Some (KInt i)"
| "to_key (PFloat f) = Some (KFloat f)"
| "to_key (PStr s) = Some (KStr s)"
| "to_key _ = None"

text \<open>The integer that a key is when \<open>isinstance(k, int)\<close> holds (a \<open>bool\<close> is an
  \<open>int\<close>).\<close>

fun key_index :: "pykey \<Rightarrow> int option" where
  "key_index (KInt n) = Some n"
| "key_index (KBool b) = Some (if b then 1 else 0)"
| "key_index _ = None"

fun py_truthy :: "pyval \<Rightarrow> bool" where
  "py_truthy PNone = False"
| "py_truthy (PBool b) = b"
| "py_truthy (PInt i) = (i \<noteq> 0)"
| "py_truthy (PFloat f) = (f \<noteq> Fin 0)"
| "py_truthy (PStr s) = (s \<noteq> [])"
| "py_truthy (PList xs) = (xs \<noteq> [])"
| "py_truthy (PDict d) = (d \<noteq> [])"
| "py_truthy (PMeta d) = True"

text \<open>\<open>s in t\<close> for two strings: \<open>s\<close> occurs in \<open>t\<close> as a contiguous block.\<close>

fun is_substring :: "string \<Rightarrow> string \<Rightarrow> bool" where
  "is_substring s [] = (s = [])"
| "is_substring s (c # t) = (take (length s) (c # t) = s \<or> is_substring s t)"

text \<open>\<open>x in c\<close>.\<close>

fun py_contains :: "pyval \<Rightarrow> pyval \<Rightarrow> pyerr + bool" where
  "py_contains (PDict d) x =
     (case to_key x of None \<Rightarrow> Inl TypeError | Some k \<Rightarrow> Inr (pd_has d k))"
| "py_contains (PList xs) x = Inr (list_ex (\<lambda>y. py_eq y x) xs)"
| "py_contains (PStr t) x =
     (case x of PStr s \<Rightarrow> Inr (is_substring s t) | _ \<Rightarrow> Inl TypeError)"
| "py_contains _ x = Inl TypeError"

section \<open>Vehicle post-processing (jbeam/table\_schema.py)\<close>

subsection \<open>convert\_dict\_to\_list\_tables\<close>

text \<open>
  The inner loop over \<open>tbl.items()\<close>: \<open>None\<close> is the \<open>return False\<close> on a key that
  is not an integer, \<open>Some new_table\<close> the list built otherwise.
\<close>

fun collect_int_rows :: "pydict \<Rightarrow> pyval list \<Rightarrow> pyval list option" where
  "collect_int_rows [] new_table = Some new_table"
| "collect_int_rows ((row_key, row_value) # rest) new_table =
     (case key_index row_key of
        Some n \<Rightarrow> collect_int_rows rest (new_table @ [row_value])
      | None \<Rightarrow> None)"

text \<open>The outer loop over \<open>vehicle.items()\<close>, which fills \<open>new_tables\<close>.\<close>

fun collect_new_tables :: "pydict \<Rightarrow> pydict \<Rightarrow> pydict option" where
  "collect_new_tables [] new_tables = Some new_tables"
| "collect_new_tables ((k, tbl) # rest) new_tables =
     (case tbl of
        PDict ((first_key, v) # items) \<Rightarrow>
          (case key_index first_key of
             Some n \<Rightarrow>
               (case collect_int_rows ((first_key, v) # items) [] of
                  None \<Rightarrow> None
                | Some new_table \<Rightarrow>
                    collect_new_tables rest (pd_set new_tables k (PList new_table)))
           | None \<Rightarrow> collect_new_tables rest new_tables)
      | _ \<Rightarrow> collect_new_tables rest new_tables)"

text \<open>
  The function returns \<open>False\<close> from inside the loops and falls off its end (returning
  \<open>None\<close>) otherwise. The result is that value and the vehicle as it is left.
\<close>

definition convert_dict_to_list_tables :: "pydict \<Rightarrow> pyval \<times> pydict" where
  "convert_dict_to_list_tables vehicle =
     (case collect_new_tables vehicle [] of
        None \<Rightarrow> (PBool False, vehicle)
      | Some new_tables \<Rightarrow> (PNone, pd_update vehicle new_tables))"

subsection \<open>check\_node\_references\<close>

text \<open>The loop over \<open>row_value.items()\<close> that looks for a reference to a missing node.\<close>

fun find_missing_ref :: "pyval \<Rightarrow> pydict \<Rightarrow> pyerr + bool" where
  "find_missing_ref nodes [] = Inr False"
| "find_missing_ref nodes ((rk, rv) # rest) =
     (case (rk, rv) of
        (KStr s, PStr t) \<Rightarrow>
          (if CHR '':'' \<in> set s then
             (case py_contains nodes (PStr t) of
                Inl e \<Rightarrow> Inl e
              | Inr present \<Rightarrow> if \<not> present then Inr True else find_missing_ref nodes rest)
           else find_missing_ref nodes rest)
      | _ \<Rightarrow> find_missing_ref nodes rest)"

text \<open>One row of a list table: the row after the pass.\<close>

definition check_row :: "pyval \<Rightarrow> pyval \<Rightarrow> pyerr + pyval" where
  "check_row nodes row_value =
     (if py_truthy nodes then
        (case row_value of
           PDict row \<Rightarrow>
             (case find_missing_ref nodes row of
                Inl e \<Rightarrow> Inl e
              | Inr is_virtual \<Rightarrow>
                  Inr (PDict (if is_virtual then pd_set row (KStr ''__virtual'') (PBool True)
                              else row)))
         | _ \<Rightarrow> Inl AttributeError)
      else
        (case row_value of
           PDict row \<Rightarrow> Inr (PDict (pd_set row (KStr ''__virtual'') (PBool True)))
         | _ \<Rightarrow> Inl TypeError))"

fun check_rows :: "pyval \<Rightarrow> pyval list \<Rightarrow> pyerr + pyval list" where
  "check_rows nodes [] = Inr []"
| "check_rows nodes (row_value # rest) =
     (case check_row nodes row_value of
        Inl e \<Rightarrow> Inl e
      | Inr row' \<Rightarrow>
          (case check_rows nodes rest of
             Inl e \<Rightarrow> Inl e
           | Inr rest' \<Rightarrow> Inr (row' # rest')))"

fun check_tables :: "pyval \<Rightarrow> pydict \<Rightarrow> pyerr + pydict" where
  "check_tables nodes [] = Inr []"
| "check_tables nodes ((k, jbeam_table) # rest) =
     (if k = KStr ''nodes'' then
        (case check_tables nodes rest of
           Inl e \<Rightarrow> Inl e
         | Inr rest' \<Rightarrow> Inr ((k, jbeam_table) # rest'))
      else
        (case jbeam_table of
           PList rows \<Rightarrow>
             (case check_rows nodes rows of
                Inl e \<Rightarrow> Inl e
              | Inr rows' \<Rightarrow>
                  (case check_tables nodes rest of
                     Inl e \<Rightarrow> Inl e
                   | Inr rest' \<Rightarrow> Inr ((k, PList rows') # rest')))
         | _ \<Rightarrow>
             (case check_tables nodes rest of
                Inl e \<Rightarrow> Inl e
              | Inr rest' \<Rightarrow> Inr ((k, jbeam_table) # rest'))))"

text \<open>\<open>vehicle.get('nodes')\<close> is \<open>None\<close> for a missing key. The function returns
  \<open>True\<close> together with the vehicle whose rows it has marked, or raises.\<close>

definition check_node_references :: "pydict \<Rightarrow> pyerr + (bool \<times> pydict)" where
  "check_node_references vehicle =
     (let nodes = (case pd_get vehicle (KStr ''nodes'') of None \<Rightarrow> PNone | Some n \<Rightarrow> n)
      in case check_tables nodes vehicle of
           Inl e \<Rightarrow> Inl e
         | Inr vehicle' \<Rightarrow> Inr (True, vehicle'))"

subsection \<open>post\_process\<close>

text \<open>Both calls are statements: their results are dropped, and the function returns
  \<open>True\<close>.\<close>

definition post_process :: "pydict \<Rightarrow> pyerr + (bool \<times> pydict)" where
  "post_process vehicle =
     (let (converted, vehicle1) = convert_dict_to_list_tables vehicle
      in case check_node_references vehicle1 of
           Inl e \<Rightarrow> Inl e
         | Inr (checked, vehicle2) \<Rightarrow> Inr (True, vehicle2))"

section \<open>The table schema processor (jbeam/table\_schema.py)\<close>

text \<open>\<open>xs[i]\<close> on a list: a negative index counts from the end.\<close>

definition py_index :: "'a list \<Rightarrow> int \<Rightarrow> pyerr + 'a" where
  "py_index xs i =
     (if 0 \<le> i \<and> i < int (length xs) then Inr (xs ! nat i)
      else if i < 0 \<and> - int (length xs) \<le> i then Inr (xs ! nat (int (length xs) + i))
      else Inl IndexError)"

text \<open>
  The class \<open>jbeam_utils.Metadata\<close> is not among the sources. Its method \<open>merge\<close>,
  which updates the receiver from another instance, is a parameter \<open>mg\<close> of the model:
  it maps the \<open>_data\<close> of the receiver and of the argument to the receiver's new
  \<open>_data\<close>. Calling \<open>merge\<close> on anything that is not an instance raises
  \<open>AttributeError\<close>. \<open>utils.row_dict_deepcopy\<close> is a copy: the identity on values.
\<close>

definition meta_merge :: "(pydict \<Rightarrow> pydict \<Rightarrow> pydict) \<Rightarrow> pyval \<Rightarrow> pyval \<Rightarrow> pyerr + pyval" where
  "meta_merge mg self other =
     (case (self, other) of
        (PMeta a, PMeta b) \<Rightarrow> Inr (PMeta (mg a b))
      | _ \<Rightarrow> Inl AttributeError)"

text \<open>\<open>if jbeam_utils.Metadata not in d: d[jbeam_utils.Metadata] = jbeam_utils.Metadata()\<close>\<close>

definition ensure_metadata :: "pydict \<Rightarrow> pydict" where
  "ensure_metadata d = (if pd_has d KMeta then d else pd_set d KMeta (PMeta []))"

text \<open>
  The loop over \<open>list(new_row_metadata._data.keys())\<close> that renames integer keys to
  header names: \<open>_data[header[var]] = _data.pop(var)\<close>.
\<close>

fun convert_metadata_keys :: "pyval list \<Rightarrow> pykey list \<Rightarrow> pydict \<Rightarrow> pyerr + pydict" where
  "convert_metadata_keys header [] data = Inr data"
| "convert_metadata_keys header (var # vars) data =
     (case key_index var of
        Some n \<Rightarrow>
          (case pd_item data var of
             Inl e \<Rightarrow> Inl e
           | Inr v \<Rightarrow>
               (case py_index header n of
                  Inl e \<Rightarrow> Inl e
                | Inr name \<Rightarrow>
                    (case to_key name of
                       None \<Rightarrow> Inl TypeError
                     | Some k \<Rightarrow>
                         convert_metadata_keys header vars (pd_set (pd_del data var) k v))))
      | None \<Rightarrow> convert_metadata_keys header vars data)"

text \<open>The loop \<open>for rk, rv in enumerate(row_value)\<close>: cells beyond the header are
  only reported.\<close>

fun assign_cells :: "pyval list \<Rightarrow> pyval list \<Rightarrow> pydict \<Rightarrow> pyerr + pydict" where
  "assign_cells (name # names) (rv # cells) new_row =
     (case to_key name of
        None \<Rightarrow> Inl TypeError
      | Some k \<Rightarrow> assign_cells names cells (pd_set new_row k rv))"
| "assign_cells names cells new_row = Inr new_row"

record table_state =
  local_options :: pydict
  new_dict :: pydict
  new_list_size :: int

text \<open>
  What one pass of the loop body does to its row: \<open>Raised\<close> is an exception,
  \<open>Failed\<close> the \<open>return -1\<close>, \<open>Next\<close> the state for the following row.
\<close>

datatype row_outcome = Raised pyerr | Failed | Next table_state

text \<open>The branch \<open>isinstance(row_value, dict)\<close>: a modifier line.\<close>

definition process_options_row :: "(pydict \<Rightarrow> pydict \<Rightarrow> pydict) \<Rightarrow> pydict \<Rightarrow> table_state
    \<Rightarrow> pyval \<times> row_outcome" where
  "process_options_row mg row st =
     (let row_value = ensure_metadata row
      in case pd_item row_value KMeta of
           Inl e \<Rightarrow> (PDict row_value, Raised e)
         | Inr row_metadata \<Rightarrow>
             (case pd_item (local_options st) KMeta of
                Inl e \<Rightarrow> (PDict row_value, Raised e)
              | Inr options_metadata \<Rightarrow>
                  (case meta_merge mg options_metadata row_metadata of
                     Inl e \<Rightarrow> (PDict row_value, Raised e)
                   | Inr merged \<Rightarrow>
                       (PDict row_value,
                        Next (st\<lparr>local_options :=
                                pd_set (pd_update (local_options st) row_value) KMeta merged\<rparr>)))))"

text \<open>
  The inline options of a row. \<open>range(header_size, len_row_value)\<close> has at most one
  element, \<open>header_size\<close>, since \<open>len_row_value\<close> is at most \<open>header_size + 1\<close> here.
  The result is the row's cells and the new row, or the cells and the exception.
\<close>

definition merge_inline_options :: "(pydict \<Rightarrow> pydict \<Rightarrow> pydict) \<Rightarrow> pyval list \<Rightarrow> nat
    \<Rightarrow> pyval list \<Rightarrow> pydict \<Rightarrow> pyval list \<times> (pyerr + pydict)" where
  "merge_inline_options mg header header_size cells new_row =
     (if header_size < length cells then
        (case cells ! header_size of
           PDict rv0 \<Rightarrow>
             (let rv = ensure_metadata rv0;
                  cells1 = cells[header_size := PDict rv]
              in case pd_item rv KMeta of
                   Inl e \<Rightarrow> (cells1, Inl e)
                 | Inr rv_metadata \<Rightarrow>
                     (case pd_item new_row KMeta of
                        Inl e \<Rightarrow> (cells1, Inl e)
                      | Inr new_row_metadata \<Rightarrow>
                          (case meta_merge mg new_row_metadata rv_metadata of
                             Inl e \<Rightarrow> (cells1, Inl e)
                           | Inr merged \<Rightarrow>
                               (case merged of
                                  PMeta data \<Rightarrow>
                                    (case convert_metadata_keys header (map fst data) data of
                                       Inl e \<Rightarrow> (cells1, Inl e)
                                     | Inr data' \<Rightarrow>
                                         (take header_size cells1 @ drop (Suc header_size) cells1,
                                          Inr (pd_set (pd_update new_row rv) KMeta (PMeta data'))))
                                | _ \<Rightarrow> (cells1, Inl AttributeError)))))
         | _ \<Rightarrow> (cells, Inr new_row))
      else (cells, Inr new_row))"

text \<open>The branch \<open>isinstance(row_value, list)\<close>: a table entry. \<open>header\<close> is the
  header after \<open>'options'\<close> has been appended, \<open>header_size\<close> its length before.\<close>

definition process_entry_row :: "(pydict \<Rightarrow> pydict \<Rightarrow> pydict) \<Rightarrow> pyval list \<Rightarrow> nat \<Rightarrow> nat
    \<Rightarrow> pyval list \<Rightarrow> table_state \<Rightarrow> pyval \<times> row_outcome" where
  "process_entry_row mg header header_size row_key row_value st =
     (if length row_value > header_size + 1 then (PList row_value, Failed)
      else
        (let new_row0 = local_options st;
             cells0 = (if length row_value = header_size
                       then row_value @ [PDict [(KMeta, PMeta [])]] else row_value)
         in case merge_inline_options mg header header_size cells0 new_row0 of
              (cells, Inl e) \<Rightarrow> (PList cells, Raised e)
            | (cells, Inr new_row1) \<Rightarrow>
                (case assign_cells (take header_size header) cells new_row1 of
                   Inl e \<Rightarrow> (PList cells, Raised e)
                 | Inr new_row2 \<Rightarrow>
                     (let (new_id, new_row) =
                            (case pd_get new_row2 (KStr ''id'') of
                               Some v \<Rightarrow> (v, pd_del (pd_set new_row2 (KStr ''name'') v) (KStr ''id''))
                             | None \<Rightarrow> (PInt (int row_key), new_row2))
                      in case to_key new_id of
                           None \<Rightarrow> (PList cells, Raised TypeError)
                         | Some k \<Rightarrow>
                             (PList cells,
                              Next (st\<lparr>new_dict := pd_set (new_dict st) k (PDict new_row),
                                       new_list_size := new_list_size st + 1\<rparr>))))))"

definition process_row :: "(pydict \<Rightarrow> pydict \<Rightarrow> pydict) \<Rightarrow> pyval list \<Rightarrow> nat \<Rightarrow> nat
    \<Rightarrow> pyval \<Rightarrow> table_state \<Rightarrow> pyval \<times> row_outcome" where
  "process_row mg header header_size row_key row_value st =
     (case row_value of
        PDict row \<Rightarrow> process_options_row mg row st
      | PList cells \<Rightarrow> process_entry_row mg header header_size row_key cells st
      | _ \<Rightarrow> (row_value, Failed))"

text \<open>\<open>for row_key, row_value in enumerate(jbeam_table)\<close>: the rows as the loop leaves
  them, how it ended, and the state it had reached (a row that fails or raises has not
  yet touched \<open>new_dict\<close> or \<open>local_options\<close>).\<close>

fun walk_rows :: "(pydict \<Rightarrow> pydict \<Rightarrow> pydict) \<Rightarrow> pyval list \<Rightarrow> nat \<Rightarrow> nat
    \<Rightarrow> pyval list \<Rightarrow> table_state \<Rightarrow> pyval list \<times> row_outcome" where
  "walk_rows mg header header_size row_key [] st = ([], Next st)"
| "walk_rows mg header header_size row_key (row_value # rest) st =
     (case process_row mg header header_size row_key row_value st of
        (row', Next st') \<Rightarrow>
          (let (rest', out) = walk_rows mg header header_size (Suc row_key) rest st'
           in (row' # rest', out))
      | (row', Raised e) \<Rightarrow> (row' # rest, Raised e)
      | (row', Failed) \<Rightarrow> (row' # rest, Failed))"

text \<open>The dict \<open>new_dict\<close> as the loop leaves it, whichever way it ends.\<close>

fun dict_walked :: "(pydict \<Rightarrow> pydict \<Rightarrow> pydict) \<Rightarrow> pyval list \<Rightarrow> nat \<Rightarrow> nat
    \<Rightarrow> pyval list \<Rightarrow> table_state \<Rightarrow> pydict" where
  "dict_walked mg header header_size row_key [] st = new_dict st"
| "dict_walked mg header header_size row_key (row_value # rest) st =
     (case process_row mg header header_size row_key row_value st of
        (row', Next st') \<Rightarrow> dict_walked mg header header_size (Suc row_key) rest st'
      | _ \<Rightarrow> new_dict st)"

text \<open>
  What a call leaves behind: the value returned (or the exception), the list
  \<open>jbeam_table\<close>, the header object that was its first element, the dict \<open>new_dict\<close>
  and the module's \<open>memo\<close>.
\<close>

record 'f table_result =
  returned :: "pyerr + int"
  table_after :: "pyval list"
  header_after :: "pyval option"
  dict_after :: pydict
  memo_after :: "'f \<Rightarrow> (pydict \<times> int) option"

text \<open>\<open>if header[-1] != 'options': header.append('options')\<close>, on a header that is not
  empty.\<close>

definition header_with_options :: "pyval list \<Rightarrow> pyval list" where
  "header_with_options header0 =
     (if \<not> py_eq (last header0) (PStr ''options'') then header0 @ [PStr ''options'']
      else header0)"

text \<open>\<open>local_options\<close> before the loop: a copy of \<open>input_options\<close> (or the empty
  dict), with a fresh \<open>Metadata()\<close> where \<open>local_options.get(Metadata)\<close> is falsy.\<close>

definition initial_options :: "pydict option \<Rightarrow> pydict" where
  "initial_options input_options =
     (let local_options0 = (case input_options of Some d \<Rightarrow> d | None \<Rightarrow> [])
      in if \<not> (case pd_get local_options0 KMeta of None \<Rightarrow> False | Some m \<Rightarrow> py_truthy m)
         then pd_set local_options0 KMeta (PMeta [])
         else local_options0)"

definition initial_state :: "pydict option \<Rightarrow> pydict \<Rightarrow> table_state" where
  "initial_state input_options new_dict0 =
     \<lparr> local_options = initial_options input_options, new_dict = new_dict0,
       new_list_size = 0 \<rparr>"

text \<open>
  \<open>fp\<close> stands for \<open>(pickle.dumps(jbeam_table), pickle.dumps(input_options))\<close>, and
  storing \<open>pickle.dumps(new_dict)\<close> to load it later is storing the value. An empty
  table raises at \<open>jbeam_table[0]\<close>, an empty header at \<open>header[-1]\<close>.
\<close>

definition process_table_with_schema_destructive ::
  "(pydict \<Rightarrow> pydict \<Rightarrow> pydict) \<Rightarrow> (pyval list \<Rightarrow> pydict option \<Rightarrow> 'f)
    \<Rightarrow> ('f \<Rightarrow> (pydict \<times> int) option)
    \<Rightarrow> pyval list \<Rightarrow> pydict \<Rightarrow> pydict option \<Rightarrow> 'f table_result" where
  "process_table_with_schema_destructive mg fp memo jbeam_table new_dict0 input_options =
     (let encoded = fp jbeam_table input_options
      in case memo encoded of
           Some (out_dict, out_size) \<Rightarrow>
             \<lparr> returned = Inr out_size, table_after = jbeam_table,
               header_after = (case jbeam_table of [] \<Rightarrow> None | h # _ \<Rightarrow> Some h),
               dict_after = pd_update new_dict0 out_dict, memo_after = memo \<rparr>
         | None \<Rightarrow>
             (case jbeam_table of
                [] \<Rightarrow>
                  \<lparr> returned = Inl IndexError, table_after = jbeam_table, header_after = None,
                    dict_after = new_dict0, memo_after = memo \<rparr>
              | PList header0 # rows \<Rightarrow>
                  (if header0 = [] then
                     \<lparr> returned = Inl IndexError, table_after = jbeam_table,
                       header_after = Some (PList header0),
                       dict_after = new_dict0, memo_after = memo \<rparr>
                   else
                     (let header_size = length header0;
                          header = header_with_options header0;
                          st0 = initial_state input_options new_dict0
                      in case walk_rows mg header header_size 0 rows st0 of
                           (rows', Raised e) \<Rightarrow>
                             \<lparr> returned = Inl e, table_after = rows',
                               header_after = Some (PList header),
                               dict_after = dict_walked mg header header_size 0 rows st0,
                               memo_after = memo \<rparr>
                         | (rows', Failed) \<Rightarrow>
                             \<lparr> returned = Inr (- 1), table_after = rows',
                               header_after = Some (PList header),
                               dict_after = dict_walked mg header header_size 0 rows st0,
                               memo_after = memo \<rparr>
                         | (rows', Next st) \<Rightarrow>
                             \<lparr> returned = Inr (new_list_size st), table_after = rows',
                               header_after = Some (PList header),
                               dict_after = new_dict st,
                               memo_after = memo(encoded \<mapsto> (new_dict st, new_list_size st)) \<rparr>))
              | header # rows \<Rightarrow>
                  \<lparr> returned = Inr (- 1), table_after = jbeam_table, header_after = Some header,
                    dict_after = new_dict0, memo_after = memo \<rparr>))"


section \<open>The rename by position (export\_vehicle.py)\<close>

text \<open>A node position is the triple of single-precision coordinates.\<close>

type_synonym pos = "pyfloat \<times> pyfloat \<times> pyfloat"

text \<open>
  The two loops that build \<open>deleting_nodes_pos_to_id\<close> and \<open>adding_nodes_pos_to_id\<close>:
  a position seen a second time is mapped to \<open>None\<close>.
\<close>

fun pos_to_id :: "(string \<times> pos) list \<Rightarrow> (pos \<times> string option) list
    \<Rightarrow> (pos \<times> string option) list" where
  "pos_to_id [] acc = acc"
| "pos_to_id ((node_id, node_pos) # rest) acc =
     (if dict_has acc node_pos then pos_to_id rest (dict_set acc node_pos None)
      else pos_to_id rest (dict_set acc node_pos (Some node_id)))"

record rename_state =
  nodes_to_add :: "(string \<times> pos) list"
  nodes_to_delete :: "(string \<times> pos) list"
  true_node_renames :: "(string \<times> string) list"

text \<open>
  The loop over \<open>deleting_nodes_pos_to_id.items()\<close>. The source tests
  \<open>node_add_id is not None\<close> only; with \<open>node_delete_id\<close> equal to \<open>None\<close> it stores
  the rename under the key \<open>None\<close> and then \<open>nodes_to_delete.pop(None)\<close> raises
  \<open>KeyError\<close>, since the keys of \<open>nodes_to_delete\<close> are node ids.
\<close>

fun match_positions :: "(pos \<times> string option) list \<Rightarrow> (pos \<times> string option) list
    \<Rightarrow> rename_state \<Rightarrow> pyerr + rename_state" where
  "match_positions [] adding st = Inr st"
| "match_positions ((node_delete_pos, node_delete_id) # rest) adding st =
     (case map_of adding node_delete_pos of
        None \<Rightarrow> match_positions rest adding st
      | Some None \<Rightarrow> match_positions rest adding st
      | Some (Some node_add_id) \<Rightarrow>
          (case node_delete_id of
             None \<Rightarrow> Inl KeyError
           | Some del_id \<Rightarrow>
               (case dict_pop (nodes_to_delete st) del_id of
                  Inl e \<Rightarrow> Inl e
                | Inr deletes' \<Rightarrow>
                    (case dict_pop (nodes_to_add st) node_add_id of
                       Inl e \<Rightarrow> Inl e
                     | Inr adds' \<Rightarrow>
                         match_positions rest adding
                           \<lparr> nodes_to_add = adds',
                             nodes_to_delete = deletes',
                             true_node_renames =
                               dict_set (true_node_renames st) del_id node_add_id \<rparr>))))"

text \<open>Lines 326 to 348 of \<open>_get_nodes_add_delete_rename\<close>: the rename by position.\<close>

definition rename_by_position :: "rename_state \<Rightarrow> pyerr + rename_state" where
  "rename_by_position st =
     (let deleting_nodes_pos_to_id = pos_to_id (nodes_to_delete st) [];
          adding_nodes_pos_to_id = pos_to_id (nodes_to_add st) []
      in match_positions deleting_nodes_pos_to_id adding_nodes_pos_to_id st)"

section \<open>Floats (export\_vehicle.py)\<close>

text \<open>Rounding to the nearest integer, ties to the even one.\<close>

definition round_half_even :: "rat \<Rightarrow> int" where
  "round_half_even x =
     (let f = \<lfloor>x\<rfloor>; d = x - of_int f
      in if d < 1 / 2 then f
         else if 1 / 2 < d then f + 1
         else if even f then f else f + 1)"

text \<open>
  Rounding to a binary floating-point format with \<open>p\<close> significant bits whose smallest
  positive number is \<open>2 ^ - s\<close>, the exponent unbounded above. Scaled by \<open>2 ^ s\<close> the
  numbers of the format are the integers with at most \<open>p\<close> significant bits: a magnitude
  whose integer part has \<open>l\<close> bits is rounded to a multiple of \<open>2 ^ (l - p)\<close>.
\<close>

definition round_to_binary :: "nat \<Rightarrow> nat \<Rightarrow> rat \<Rightarrow> rat" where
  "round_to_binary p s x =
     (let m = \<bar>x\<bar> * 2 ^ s;
          l = floorlog 2 (nat \<lfloor>m\<rfloor>);
          u = 2 ^ (l - p)
      in sgn x * (of_int (round_half_even (m / u)) * u / 2 ^ s))"

text \<open>The C conversion of a double to \<open>float\<close>: IEEE single precision, overflow to
  infinity.\<close>

definition single_of_rat :: "rat \<Rightarrow> pyfloat" where
  "single_of_rat x =
     (let r = round_to_binary 24 149 x
      in if 2 ^ 128 \<le> \<bar>r\<bar> then (if 0 < x then PosInf else NegInf) else Fin r)"

text \<open>\<open>float(n)\<close> for an \<open>int\<close>: the nearest double, or \<open>OverflowError\<close>.\<close>

definition float_of_int :: "int \<Rightarrow> pyerr + pyfloat" where
  "float_of_int n =
     (let r = round_to_binary 53 1074 (of_int n)
      in if 2 ^ 1024 \<le> \<bar>r\<bar> then Inl OverflowError else Inr (Fin r))"

text \<open>The cast of a double to \<open>float\<close>.\<close>

fun c_float :: "pyfloat \<Rightarrow> pyfloat" where
  "c_float (Fin x) = single_of_rat x"
| "c_float PosInf = PosInf"
| "c_float NegInf = NegInf"

text \<open>\<open>ctypes.c_float(num).value\<close>: the number as a C double, cast to \<open>float\<close>.\<close>

fun to_c_float :: "pyval \<Rightarrow> pyerr + pyfloat" where
  "to_c_float (PFloat f) = Inr (c_float f)"
| "to_c_float (PInt n) =
     (case float_of_int n of
        Inr f \<Rightarrow> Inr (c_float f)
      | Inl e \<Rightarrow> Inl e)"
| "to_c_float (PBool b) = Inr (Fin (if b then 1 else 0))"
| "to_c_float _ = Inl TypeError"

text \<open>The decimal exponent of a positive number: \<open>\<lfloor>log\<^sub>1\<^sub>0 x\<rfloor>\<close>.\<close>

definition decimal_exponent :: "rat \<Rightarrow> int" where
  "decimal_exponent x =
     (if 1 \<le> x then int (floorlog 10 (nat \<lfloor>x\<rfloor>)) - 1
      else (let j = floorlog 10 (nat \<lfloor>1 / x\<rfloor>)
            in if x * 10 ^ (j - 1) = 1 then 1 - int j else - int j))"

text \<open>
  \<open>len('%.4g' % x)\<close> for \<open>x \<ge> 0\<close>: four significant digits, correctly rounded,
  trailing zeros removed; exponent notation (with at least two exponent digits) when the
  decimal exponent is below \<open>-4\<close> or at least 4.
\<close>

definition len_format_4g :: "rat \<Rightarrow> int" where
  "len_format_4g x =
     (if x = 0 then 1
      else
        (let e0 = decimal_exponent x;
             m0 = round_half_even (x / 10 powi (e0 - 3));
             m = (if m0 = 10000 then 1000 else m0);
             e = (if m0 = 10000 then e0 + 1 else e0);
             nd = (if m mod 1000 = 0 then 1 else if m mod 100 = 0 then 2
                   else if m mod 10 = 0 then 3 else 4)
         in if e < - 4 \<or> 4 \<le> e then
              (if nd = 1 then 1 else nd + 1) + 2 + max 2 (int (floorlog 10 (nat \<bar>e\<bar>)))
            else if 0 \<le> e then (if nd \<le> e + 1 then e + 1 else nd + 1)
            else nd + 1 - e))"

text \<open>
  \<open>min(4, max(len('%.4g' % abs(fval - int(fval))) - 2, 0))\<close> for a float \<open>fval\<close>;
  \<open>int\<close> of an infinity raises \<open>OverflowError\<close>.
\<close>

fun get_float_precision :: "pyfloat \<Rightarrow> pyerr + int" where
  "get_float_precision (Fin x) =
     Inr (min 4 (max (len_format_4g \<bar>x - of_int (if 0 \<le> x then \<lfloor>x\<rfloor> else \<lceil>x\<rceil>)\<bar> - 2) 0))"
| "get_float_precision _ = Inl OverflowError"

section \<open>Tokens and the patch pass (export\_vehicle.py)\<close>

text \<open>
  A token of \<open>sjsonast\<close>: its kind (\<open>'wsc'\<close>, \<open>'{'\<close>, \<open>'}'\<close>, \<open>'['\<close>, \<open>']'\<close>,
  \<open>':'\<close>, \<open>'"'\<close>, \<open>'number'\<close>, ...), its value, and the precision of a number. The
  class is not among the sources; \<open>None\<close> is the precision of a token built without
  one.
\<close>

record ASTNode =
  data_type :: string
  node_value :: pyval
  precision :: "int option"

definition is_number :: "pyval \<Rightarrow> bool" where
  "is_number v = (case v of PInt n \<Rightarrow> True | PFloat f \<Rightarrow> True | _ \<Rightarrow> False)"

text \<open>
  \<open>set_number_node\<close>. The condition reads
  \<open>(node.data_type == 'number' and type(val) == int) or type(val) == float\<close>. The
  value is stored before the precision is computed, so an exception leaves it stored.
\<close>

definition set_number_node :: "ASTNode \<Rightarrow> pyval \<Rightarrow> ASTNode \<times> pyerr option" where
  "set_number_node node val =
     (case val of
        PInt n \<Rightarrow>
          (if data_type node = ''number'' then
             (case float_of_int n of
                Inl e \<Rightarrow> (node\<lparr>node_value := val\<rparr>, Some e)
              | Inr fval \<Rightarrow>
                  (case get_float_precision fval of
                     Inl e \<Rightarrow> (node\<lparr>node_value := val\<rparr>, Some e)
                   | Inr p \<Rightarrow> (node\<lparr>node_value := val, precision := Some p\<rparr>, None)))
           else (node, None))
      | PFloat fval \<Rightarrow>
          (case get_float_precision fval of
             Inl e \<Rightarrow> (node\<lparr>node_value := val\<rparr>, Some e)
           | Inr p \<Rightarrow> (node\<lparr>node_value := val, precision := Some p\<rparr>, None))
      | _ \<Rightarrow> (node, None))"

text \<open>\<open>c[k]\<close> for a key or index \<open>k\<close> taken from the path stack.\<close>

fun py_getitem :: "pyval \<Rightarrow> pyval \<Rightarrow> pyerr + pyval" where
  "py_getitem (PDict d) k =
     (case to_key k of None \<Rightarrow> Inl TypeError | Some kk \<Rightarrow> pd_item d kk)"
| "py_getitem (PList xs) k =
     (case k of
        PInt n \<Rightarrow> py_index xs n
      | PBool b \<Rightarrow> py_index xs (if b then 1 else 0)
      | _ \<Rightarrow> Inl TypeError)"
| "py_getitem (PStr s) k =
     (case k of
        PInt n \<Rightarrow> (case py_index s n of Inl e \<Rightarrow> Inl e | Inr c \<Rightarrow> Inr (PStr [c]))
      | PBool b \<Rightarrow>
          (case py_index s (if b then 1 else 0) of Inl e \<Rightarrow> Inl e | Inr c \<Rightarrow> Inr (PStr [c]))
      | _ \<Rightarrow> Inl TypeError)"
| "py_getitem _ k = Inl TypeError"

text \<open>The loop over the stack in \<open>compare_and_set_value\<close>, which descends in both trees
  at once, the old one first.\<close>

fun descend :: "pyval \<Rightarrow> pyval \<Rightarrow> (pyval \<times> bool) list \<Rightarrow> pyerr + (pyval \<times> pyval)" where
  "descend old_data data [] = Inr (old_data, data)"
| "descend old_data data (stack_entry # rest) =
     (case py_getitem old_data (fst stack_entry) of
        Inl e \<Rightarrow> Inl e
      | Inr old' \<Rightarrow>
          (case py_getitem data (fst stack_entry) of
             Inl e \<Rightarrow> Inl e
           | Inr data' \<Rightarrow> descend old' data' rest))"

text \<open>The two values that \<open>compare_and_set_value\<close> compares.\<close>

definition values_at :: "pyval \<Rightarrow> pyval \<Rightarrow> (pyval \<times> bool) list \<Rightarrow> pyval
    \<Rightarrow> pyerr + (pyval \<times> pyval)" where
  "values_at original_jbeam_file_data jbeam_file_data stack index =
     descend original_jbeam_file_data jbeam_file_data (stack @ [(index, False)])"

text \<open>The test of the \<open>number\<close> branch, with Python's short-circuit evaluation.\<close>

definition number_changed :: "pyval \<Rightarrow> pyval \<Rightarrow> pyerr + bool" where
  "number_changed old_data data =
     (if \<not> is_number old_data then Inr True
      else if \<not> is_number data then Inr False
      else
        (case to_c_float old_data of
           Inl e \<Rightarrow> Inl e
         | Inr a \<Rightarrow>
             (case to_c_float data of
                Inl e \<Rightarrow> Inl e
              | Inr b \<Rightarrow> Inr (a \<noteq> b \<and> \<not> py_eq old_data data))))"

text \<open>\<open>compare_and_set_value\<close>: the token as the call leaves it, and the flag returned
  or the exception raised.\<close>

definition compare_and_set_value :: "pyval \<Rightarrow> pyval \<Rightarrow> (pyval \<times> bool) list \<Rightarrow> pyval
    \<Rightarrow> ASTNode \<Rightarrow> ASTNode \<times> (pyerr + bool)" where
  "compare_and_set_value original_jbeam_file_data jbeam_file_data stack index node =
     (case values_at original_jbeam_file_data jbeam_file_data stack index of
        Inl e \<Rightarrow> (node, Inl e)
      | Inr (old_data, data) \<Rightarrow>
          (if data_type node = ''number'' then
             (case number_changed old_data data of
                Inl e \<Rightarrow> (node, Inl e)
              | Inr True \<Rightarrow>
                  (case set_number_node node data of
                     (node', Some e) \<Rightarrow> (node', Inl e)
                   | (node', None) \<Rightarrow> (node', Inr True))
              | Inr False \<Rightarrow> (node, Inr False))
           else if \<not> py_eq old_data data then (node\<lparr>node_value := data\<rparr>, Inr True)
           else (node, Inr False)))"

subsection \<open>List surgery\<close>

abbreviation nl :: char where "nl \<equiv> CHR 0x0A"

text \<open>The position that the index \<open>i\<close> denotes in a list of length \<open>n\<close>.\<close>

definition py_pos :: "nat \<Rightarrow> int \<Rightarrow> pyerr + nat" where
  "py_pos n i =
     (if 0 \<le> i \<and> i < int n then Inr (nat i)
      else if i < 0 \<and> - int n \<le> i then Inr (nat (int n + i))
      else Inl IndexError)"

text \<open>The bound of a slice: negative values count from the end, and the result is
  clipped to the list.\<close>

definition py_clip :: "nat \<Rightarrow> int \<Rightarrow> nat" where
  "py_clip n i = (if i < 0 then nat (max 0 (int n + i)) else min (nat i) n)"

text \<open>\<open>xs.insert(i, x)\<close>\<close>

definition py_insert :: "'a list \<Rightarrow> int \<Rightarrow> 'a \<Rightarrow> 'a list" where
  "py_insert xs i x = take (py_clip (length xs) i) xs @ x # drop (py_clip (length xs) i) xs"

text \<open>\<open>del xs[i]\<close>\<close>

definition py_del_index :: "'a list \<Rightarrow> int \<Rightarrow> pyerr + 'a list" where
  "py_del_index xs i =
     (case py_pos (length xs) i of
        Inl e \<Rightarrow> Inl e
      | Inr p \<Rightarrow> Inr (take p xs @ drop (Suc p) xs))"

text \<open>\<open>del xs[a:b]\<close>\<close>

definition py_del_slice :: "'a list \<Rightarrow> int \<Rightarrow> int \<Rightarrow> 'a list" where
  "py_del_slice xs a b =
     (let lo = py_clip (length xs) a; hi = py_clip (length xs) b
      in if lo < hi then take lo xs @ drop hi xs else xs)"

text \<open>\<open>ASTNode(data_type, value)\<close> and the text of a separator token (anything but a
  string in its place raises \<open>TypeError\<close> where the text is used).\<close>

definition mk_node :: "string \<Rightarrow> pyval \<Rightarrow> ASTNode" where
  "mk_node dt v = \<lparr> data_type = dt, node_value = v, precision = None \<rparr>"

definition wsc_text :: "ASTNode \<Rightarrow> pyerr + string" where
  "wsc_text node = (case node_value node of PStr t \<Rightarrow> Inr t | _ \<Rightarrow> Inl TypeError)"

text \<open>The index of the first newline of a text.\<close>

fun first_nl :: "string \<Rightarrow> nat option" where
  "first_nl [] = None"
| "first_nl (c # t) = (if c = nl then Some 0 else map_option Suc (first_nl t))"

text \<open>The text up to and including its last newline, and the text after it.\<close>

definition upto_last_nl :: "string \<Rightarrow> string" where
  "upto_last_nl t = rev (dropWhile (\<lambda>c. c \<noteq> nl) (rev t))"

definition after_last_nl :: "string \<Rightarrow> string" where
  "after_last_nl t = rev (takeWhile (\<lambda>c. c \<noteq> nl) (rev t))"

subsection \<open>add\_jbeam\_nodes\<close>

text \<open>
  The backward scan for the indentation: \<open>j\<close> runs from \<open>start + n\<close> down to
  \<open>start + 1\<close>. The result is the indent level (8 when no separator with a newline is
  met) and whether the scan has assigned the local \<open>k\<close>, which the function reads
  again later.
\<close>

fun scan_indent :: "ASTNode list \<Rightarrow> int \<Rightarrow> nat \<Rightarrow> bool \<Rightarrow> pyerr + (nat \<times> bool)" where
  "scan_indent ast_nodes start 0 k_bound = Inr (8, k_bound)"
| "scan_indent ast_nodes start (Suc n) k_bound =
     (case py_index ast_nodes (start + int (Suc n)) of
        Inl e \<Rightarrow> Inl e
      | Inr node_j \<Rightarrow>
          (if data_type node_j = ''wsc'' then
             (case wsc_text node_j of
                Inl e \<Rightarrow> Inl e
              | Inr wscs \<Rightarrow>
                  (if nl \<in> set wscs then Inr (length (after_last_nl wscs), True)
                   else scan_indent ast_nodes start n (k_bound \<or> wscs \<noteq> [])))
           else scan_indent ast_nodes start n k_bound))"

text \<open>\<open>'\n' + ' ' * jbeam_entry_indent_lvl\<close>\<close>

definition entry_indent :: "nat \<Rightarrow> string" where
  "entry_indent lvl = nl # replicate lvl CHR '' ''"

text \<open>A run of \<open>ast_nodes.insert(i + 0, ...)\<close>, \<open>ast_nodes.insert(i + 1, ...)\<close>, ...;
  a token whose construction raises ends the run.\<close>

fun insert_tokens :: "ASTNode list \<Rightarrow> int \<Rightarrow> (pyerr + ASTNode) list
    \<Rightarrow> ASTNode list \<times> pyerr option" where
  "insert_tokens ast_nodes i [] = (ast_nodes, None)"
| "insert_tokens ast_nodes i (Inl e # rest) = (ast_nodes, Some e)"
| "insert_tokens ast_nodes i (Inr node # rest) = insert_tokens (py_insert ast_nodes i node) (i + 1) rest"

definition number_node :: "pyfloat \<Rightarrow> pyerr + ASTNode" where
  "number_node v =
     (case get_float_precision v of
        Inl e \<Rightarrow> Inl e
      | Inr p \<Rightarrow> Inr \<lparr> data_type = ''number'', node_value = PFloat v, precision = Some p \<rparr>)"

text \<open>The nine tokens of a new row.\<close>

definition row_tokens :: "string \<Rightarrow> pos \<Rightarrow> (pyerr + ASTNode) list" where
  "row_tokens node_id node_pos =
     [Inr (mk_node ''['' PNone),
      Inr (mk_node [CHR 0x22] (PStr node_id)),
      Inr (mk_node ''wsc'' (PStr '', '')),
      number_node (fst node_pos),
      Inr (mk_node ''wsc'' (PStr '', '')),
      number_node (fst (snd node_pos)),
      Inr (mk_node ''wsc'' (PStr '', '')),
      number_node (snd (snd node_pos)),
      Inr (mk_node '']'' PNone)]"

text \<open>\<open>node.value += text\<close> on the token at a position.\<close>

definition append_text :: "ASTNode list \<Rightarrow> nat \<Rightarrow> string \<Rightarrow> pyerr + ASTNode list" where
  "append_text ast_nodes p t =
     (case node_value (ast_nodes ! p) of
        PStr old \<Rightarrow> Inr (ast_nodes[p := (ast_nodes ! p)\<lparr>node_value := PStr (old @ t)\<rparr>])
      | _ \<Rightarrow> Inl TypeError)"

text \<open>
  The loop over \<open>nodes_to_add.items()\<close>. \<open>node_after_entry\<close> is the position of the
  separator that takes the first indent, or \<open>None\<close> once it has been used.
\<close>

fun add_rows :: "ASTNode list \<Rightarrow> int \<Rightarrow> nat option \<Rightarrow> string \<Rightarrow> (string \<times> pos) list
    \<Rightarrow> ASTNode list \<times> (pyerr + int)" where
  "add_rows ast_nodes i node_after_entry jbeam_entry_indent [] = (ast_nodes, Inr i)"
| "add_rows ast_nodes i node_after_entry jbeam_entry_indent ((node_id, node_pos) # rest) =
     (case (case node_after_entry of
              Some p \<Rightarrow>
                (case append_text ast_nodes p jbeam_entry_indent of
                   Inl e \<Rightarrow> Inl e
                 | Inr nodes1 \<Rightarrow> Inr (nodes1, i))
            | None \<Rightarrow>
                Inr (py_insert ast_nodes i (mk_node ''wsc'' (PStr jbeam_entry_indent)), i + 1)) of
        Inl e \<Rightarrow> (ast_nodes, Inl e)
      | Inr (nodes1, i1) \<Rightarrow>
          (case insert_tokens nodes1 i1 (row_tokens node_id node_pos) of
             (nodes2, Some e) \<Rightarrow> (nodes2, Inl e)
           | (nodes2, None) \<Rightarrow>
               (if rest \<noteq> [] then
                  add_rows (py_insert nodes2 (i1 + 9) (mk_node ''wsc'' (PStr '','')))
                    (i1 + 10) None jbeam_entry_indent rest
                else add_rows nodes2 (i1 + 9) None jbeam_entry_indent rest)))"

text \<open>
  The split of the separator after the last entry. With a newline at index \<open>k\<close> the
  token keeps \<open>wscs[:k]\<close> and the rest becomes \<open>node_2_after_entry\<close>. Without one the
  loop leaves \<open>k\<close> at the last index, so the token loses its last character; on an empty
  text the loop does not run and \<open>k\<close> is what the indentation scan left, if anything.
\<close>

definition split_after_entry :: "string \<Rightarrow> bool \<Rightarrow> pyerr + (string \<times> ASTNode option)" where
  "split_after_entry wscs k_bound =
     (case first_nl wscs of
        Some k \<Rightarrow> Inr (take k wscs, Some (mk_node ''wsc'' (PStr (drop k wscs))))
      | None \<Rightarrow>
          (if wscs = [] then (if k_bound then Inr ([], None) else Inl UnboundLocalError)
           else Inr (take (length wscs - 1) wscs, None)))"

text \<open>
  \<open>add_jbeam_nodes\<close>: the token list as the call leaves it and the index returned. An
  index argument that is \<open>None\<close> raises \<open>TypeError\<close> where it is used in arithmetic
  or compared. (\<open>to_add\<close> is the parameter \<open>nodes_to_add\<close>.)
\<close>

definition add_jbeam_nodes :: "ASTNode list \<Rightarrow> int option \<Rightarrow> int option \<Rightarrow> int option
    \<Rightarrow> int option \<Rightarrow> (string \<times> pos) list \<Rightarrow> ASTNode list \<times> (pyerr + int)" where
  "add_jbeam_nodes ast_nodes jbeam_section_start_node_idx jbeam_section_end_node_idx
       jbeam_entry_start_node_idx jbeam_entry_end_node_idx to_add =
     (case (jbeam_section_end_node_idx, jbeam_section_start_node_idx) of
        (Some section_end, Some section_start) \<Rightarrow>
          (case scan_indent ast_nodes section_start (nat (section_end - 2 - section_start)) False of
             Inl e \<Rightarrow> (ast_nodes, Inl e)
           | Inr (jbeam_entry_indent_lvl, k_bound) \<Rightarrow>
               (case jbeam_entry_end_node_idx of
                  None \<Rightarrow> (ast_nodes, Inl TypeError)
                | Some entry_end \<Rightarrow>
                    (case py_pos (length ast_nodes) (entry_end + 1) of
                       Inl e \<Rightarrow> (ast_nodes, Inl e)
                     | Inr p \<Rightarrow>
                         (case (if data_type (ast_nodes ! p) = ''wsc'' then
                                  (case wsc_text (ast_nodes ! p) of
                                     Inl e \<Rightarrow> Inl e
                                   | Inr wscs \<Rightarrow>
                                       (case split_after_entry wscs k_bound of
                                          Inl e \<Rightarrow> Inl e
                                        | Inr (kept, node_2) \<Rightarrow>
                                            Inr (ast_nodes[p := (ast_nodes ! p)\<lparr>node_value := PStr kept\<rparr>],
                                                 node_2)))
                                else Inr (py_insert ast_nodes (entry_end + 1) (mk_node ''wsc'' (PStr [])),
                                          None)) of
                            Inl e \<Rightarrow> (ast_nodes, Inl e)
                          | Inr (nodes1, node_2_after_entry) \<Rightarrow>
                              (case add_rows nodes1 (entry_end + 2) (Some p)
                                      (entry_indent jbeam_entry_indent_lvl) to_add of
                                 (nodes2, Inl e) \<Rightarrow> (nodes2, Inl e)
                               | (nodes2, Inr i) \<Rightarrow>
                                   (case node_2_after_entry of
                                      Some node_2 \<Rightarrow> (py_insert nodes2 i node_2, Inr (i + 1))
                                    | None \<Rightarrow> (nodes2, Inr (i + 1))))))))
      | _ \<Rightarrow> (ast_nodes, Inl TypeError))"

subsection \<open>delete\_jbeam\_node\<close>

text \<open>
  What becomes of the separator after the deleted entry: \<open>None\<close> when the token is
  deleted (\<open>k == len(value) - 1\<close>), its new text \<open>value[k + 1:]\<close> otherwise. \<open>k\<close> is
  the index of the first newline, less one when there is an entry to the left; without a
  newline the loop leaves it at the last index, and on an empty text it is unbound.
\<close>

definition trim_right :: "string \<Rightarrow> bool \<Rightarrow> pyerr + string option" where
  "trim_right t node_entry_to_left =
     (case first_nl t of
        Some n0 \<Rightarrow>
          (let k = (if node_entry_to_left then int n0 - 1 else int n0)
           in if k = int (length t) - 1 then Inr None else Inr (Some (drop (nat (k + 1)) t)))
      | None \<Rightarrow> (if t = [] then Inl UnboundLocalError else Inr None))"

text \<open>\<open>value[:k + 1]\<close> after the backward search for a newline, which leaves \<open>k\<close> at 0
  when it finds none.\<close>

definition trim_left :: "string \<Rightarrow> string" where
  "trim_left t = (if nl \<in> set t then upto_last_nl t else take 1 t)"

text \<open>Whether a token is a separator whose text has a newline.\<close>

definition wsc_has_nl :: "ASTNode \<Rightarrow> pyerr + bool" where
  "wsc_has_nl node =
     (if data_type node = ''wsc'' then
        (case wsc_text node of Inl e \<Rightarrow> Inl e | Inr t \<Rightarrow> Inr (nl \<in> set t))
      else Inr False)"

text \<open>The last part of \<open>delete_jbeam_node\<close>: two separators that have become
  neighbours are merged into the second one.\<close>

definition merge_separators :: "ASTNode list \<Rightarrow> int \<Rightarrow> ASTNode list \<times> (pyerr + int)" where
  "merge_separators ast_nodes i =
     (case py_pos (length ast_nodes) i of
        Inl e \<Rightarrow> (ast_nodes, Inl e)
      | Inr ci \<Rightarrow>
          (case py_pos (length ast_nodes) (i + 1) of
             Inl e \<Rightarrow> (ast_nodes, Inl e)
           | Inr ni \<Rightarrow>
               (if data_type (ast_nodes ! ci) = ''wsc'' \<and> data_type (ast_nodes ! ni) = ''wsc'' then
                  (case (node_value (ast_nodes ! ci), node_value (ast_nodes ! ni)) of
                     (PStr a, PStr b) \<Rightarrow>
                       (let nodes1 = ast_nodes[ni := (ast_nodes ! ni)\<lparr>node_value := PStr (a @ b)\<rparr>]
                        in (take ci nodes1 @ drop (Suc ci) nodes1, Inr (i - 1)))
                   | _ \<Rightarrow> (ast_nodes, Inl TypeError))
                else (ast_nodes, Inr i))))"

text \<open>
  \<open>delete_jbeam_node\<close>: the token list as the call leaves it and the index returned.
  (The parameter \<open>jbeam_section_start_node_idx\<close> is not used by the function.)
\<close>

definition delete_jbeam_node :: "ASTNode list \<Rightarrow> int option \<Rightarrow> int option \<Rightarrow> int option
    \<Rightarrow> ASTNode list \<times> (pyerr + int)" where
  "delete_jbeam_node ast_nodes jbeam_section_start_node_idx jbeam_entry_start_node_idx
       jbeam_entry_end_node_idx =
     (case (jbeam_entry_start_node_idx, jbeam_entry_end_node_idx) of
        (Some entry_start, Some entry_end) \<Rightarrow>
          (case py_pos (length ast_nodes) (entry_start - 1) of
             Inl e \<Rightarrow> (ast_nodes, Inl e)
           | Inr pp \<Rightarrow>
               (case py_pos (length ast_nodes) (entry_end + 1) of
                  Inl e \<Rightarrow> (ast_nodes, Inl e)
                | Inr q \<Rightarrow>
                    (case wsc_has_nl (ast_nodes ! pp) of
                       Inl e \<Rightarrow> (ast_nodes, Inl e)
                     | Inr prev_nl \<Rightarrow>
                         (case wsc_has_nl (ast_nodes ! q) of
                            Inl e \<Rightarrow> (ast_nodes, Inl e)
                          | Inr next_nl \<Rightarrow>
                              (case (if data_type (ast_nodes ! q) = ''wsc'' then
                                       (case wsc_text (ast_nodes ! q) of
                                          Inl e \<Rightarrow> Inl e
                                        | Inr t \<Rightarrow>
                                            (case trim_right t (\<not> prev_nl) of
                                               Inl e \<Rightarrow> Inl e
                                             | Inr None \<Rightarrow>
                                                 Inr (take q ast_nodes @ drop (Suc q) ast_nodes, True)
                                             | Inr (Some t') \<Rightarrow>
                                                 Inr (ast_nodes[q := (ast_nodes ! q)\<lparr>node_value := PStr t'\<rparr>],
                                                      False)))
                                     else Inr (ast_nodes, False)) of
                                 Inl e \<Rightarrow> (ast_nodes, Inl e)
                               | Inr (nodes1, deleted_right_wsc) \<Rightarrow>
                                   (let nodes2 =
                                          (if prev_nl \<and> next_nl then
                                             (if deleted_right_wsc \<and> pp = q then nodes1
                                              else
                                                (let pp' = (if deleted_right_wsc \<and> q < pp then pp - 1 else pp)
                                                 in case node_value (nodes1 ! pp') of
                                                      PStr t \<Rightarrow>
                                                        nodes1[pp' := (nodes1 ! pp')\<lparr>node_value := PStr (trim_left t)\<rparr>]
                                                    | _ \<Rightarrow> nodes1))
                                           else nodes1);
                                        nodes3 = py_del_slice nodes2 entry_start (entry_end + 1);
                                        i = (if deleted_right_wsc then entry_start - 2 else entry_start - 1)
                                    in merge_separators nodes3 i))))))
      | _ \<Rightarrow> (ast_nodes, Inl TypeError))"

subsection \<open>update\_ast\_nodes\<close>

text \<open>
  The local variables of \<open>update_ast_nodes\<close>. \<open>PNone\<close> is \<open>None\<close> for the two keys and
  the node id; \<open>tokens\<close> is the list \<open>ast_nodes\<close> and \<open>cursor\<close> the variable \<open>i\<close>.
\<close>

record patch_state =
  tokens :: "ASTNode list"
  stack :: "(pyval \<times> bool) list"
  in_dict :: bool
  pos_in_arr :: int
  temp_dict_key :: pyval
  dict_key :: pyval
  entry_start_idx :: "int option"
  entry_end_idx :: "int option"
  section_start_idx :: "int option"
  section_end_idx :: "int option"
  jbeam_node_id :: pyval
  cursor :: int

definition is_open :: "ASTNode \<Rightarrow> bool" where
  "is_open node = (data_type node = ''{'' \<or> data_type node = ''['')"

definition is_close :: "ASTNode \<Rightarrow> bool" where
  "is_close node = (data_type node = ''}'' \<or> data_type node = '']'')"

text \<open>\<open>len(stack) == n and stack[0][0] == jbeam_part\<close>\<close>

definition in_part :: "string \<Rightarrow> nat \<Rightarrow> (pyval \<times> bool) list \<Rightarrow> bool" where
  "in_part jbeam_part n stk = (length stk = n \<and> fst (stk ! 0) = PStr jbeam_part)"

text \<open>\<open>len(stack) == n and stack[0][0] == jbeam_part and stack[1][0] == 'nodes'\<close>\<close>

definition in_nodes :: "string \<Rightarrow> nat \<Rightarrow> (pyval \<times> bool) list \<Rightarrow> bool" where
  "in_nodes jbeam_part n stk = (in_part jbeam_part n stk \<and> fst (stk ! 1) = PStr ''nodes'')"

text \<open>
  The first part of the loop body, for a token in a dictionary (\<open>in_dict\<close>): the state
  after it, with the token at position \<open>p\<close> as \<open>compare_and_set_value\<close> leaves it.
\<close>

definition dict_phase :: "pyval \<Rightarrow> pyval \<Rightarrow> nat \<Rightarrow> ASTNode \<Rightarrow> patch_state
    \<Rightarrow> patch_state \<times> pyerr option" where
  "dict_phase original modified p node st =
     (if is_open node then
        (let st1 = (if dict_key st \<noteq> PNone
                    then st\<lparr>stack := stack st @ [(dict_key st, in_dict st)],
                            in_dict := (data_type node = ''{'')\<rparr>
                    else st)
         in (st1\<lparr>pos_in_arr := 0, temp_dict_key := PNone, dict_key := PNone\<rparr>, None))
      else if \<not> is_close node then
        (if temp_dict_key st = PNone then
           (if data_type node = [CHR 0x22] then (st\<lparr>temp_dict_key := node_value node\<rparr>, None)
            else (st, None))
         else if data_type node = '':'' then (st\<lparr>dict_key := temp_dict_key st\<rparr>, None)
         else if dict_key st \<noteq> PNone then
           (case compare_and_set_value original modified (stack st) (dict_key st) node of
              (node', Inl e) \<Rightarrow> (st\<lparr>tokens := (tokens st)[p := node']\<rparr>, Some e)
            | (node', Inr changed) \<Rightarrow>
                (st\<lparr>tokens := (tokens st)[p := node'], temp_dict_key := PNone,
                    dict_key := PNone\<rparr>, None))
         else (st, None))
      else (st, None))"

text \<open>The same for a token in an array.\<close>

definition array_phase :: "pyval \<Rightarrow> pyval \<Rightarrow> string \<Rightarrow> nat \<Rightarrow> ASTNode \<Rightarrow> patch_state
    \<Rightarrow> patch_state \<times> pyerr option" where
  "array_phase original modified jbeam_part p node st =
     (if is_open node then
        (st\<lparr>stack := stack st @ [(PInt (pos_in_arr st), in_dict st)],
            in_dict := (data_type node = ''{''), pos_in_arr := 0,
            temp_dict_key := PNone, dict_key := PNone\<rparr>, None)
      else if \<not> is_close node then
        (case (if in_nodes jbeam_part 3 (stack st) \<and> entry_start_idx st \<noteq> None
                  \<and> pos_in_arr st = 0
               then (case descend modified modified (stack st @ [(PInt (pos_in_arr st), False)]) of
                       Inl e \<Rightarrow> Inl e
                     | Inr (data, data') \<Rightarrow> Inr (st\<lparr>jbeam_node_id := data\<rparr>))
               else Inr st) of
           Inl e \<Rightarrow> (st, Some e)
         | Inr st1 \<Rightarrow>
             (case compare_and_set_value original modified (stack st1) (PInt (pos_in_arr st1))
                     node of
                (node', Inl e) \<Rightarrow> (st1\<lparr>tokens := (tokens st1)[p := node']\<rparr>, Some e)
              | (node', Inr changed) \<Rightarrow>
                  (st1\<lparr>tokens := (tokens st1)[p := node'],
                       pos_in_arr := pos_in_arr st1 + 1\<rparr>, None)))
      else (st, None))"

text \<open>The bookkeeping at an opening token.\<close>

definition open_phase :: "string \<Rightarrow> ASTNode \<Rightarrow> patch_state \<Rightarrow> patch_state" where
  "open_phase jbeam_part node st =
     (if is_open node then
        (let st1 = (if in_part jbeam_part 2 (stack st)
                    then st\<lparr>section_start_idx := Some (cursor st)\<rparr> else st)
         in if in_part jbeam_part 3 (stack st1)
            then st1\<lparr>entry_start_idx := Some (cursor st1)\<rparr> else st1)
      else st)"

text \<open>\<open>jbeam_node_id in nodes_to_delete\<close>: a value that cannot be hashed raises.\<close>

definition id_in_deletes :: "pyval \<Rightarrow> (string \<times> pos) list \<Rightarrow> pyerr + bool" where
  "id_in_deletes node_id to_delete =
     (case node_id of
        PStr s \<Rightarrow> Inr (dict_has to_delete s)
      | PList xs \<Rightarrow> Inl TypeError
      | PDict d \<Rightarrow> Inl TypeError
      | PMeta d \<Rightarrow> Inl TypeError
      | _ \<Rightarrow> Inr False)"

text \<open>
  The work at a closing token: the end of an entry is recorded, rows are added at the end
  of the node section, the stack is popped, and the entry just closed is deleted when its
  id is to be deleted. \<open>stack_head[0] + 1\<close> is taken when the popped frame was pushed in
  an array, where the key is the integer \<open>pos_in_arr\<close>.
\<close>

definition close_phase :: "string \<Rightarrow> (string \<times> pos) list \<Rightarrow> (string \<times> pos) list \<Rightarrow> ASTNode
    \<Rightarrow> patch_state \<Rightarrow> patch_state \<times> pyerr option" where
  "close_phase jbeam_part to_add to_delete node st =
     (if is_close node then
        (let st1 = (if in_part jbeam_part 3 (stack st)
                    then st\<lparr>entry_end_idx := Some (cursor st)\<rparr> else st)
         in case (if data_type node = '']'' \<and> in_nodes jbeam_part 2 (stack st1) \<and> to_add \<noteq> []
                  then
                    (case add_jbeam_nodes (tokens st1) (section_start_idx st1) (Some (cursor st1))
                            (entry_start_idx st1) (entry_end_idx st1) to_add of
                       (nodes', Inl e) \<Rightarrow>
                         Inl (st1\<lparr>section_end_idx := Some (cursor st1), tokens := nodes'\<rparr>, e)
                     | (nodes', Inr i') \<Rightarrow>
                         Inr (st1\<lparr>section_end_idx := Some (cursor st1), tokens := nodes',
                                  cursor := i'\<rparr>))
                  else Inr st1) of
              Inl (st2, e) \<Rightarrow> (st2, Some e)
            | Inr st2 \<Rightarrow>
                (case (case stack st2 of
                         [] \<Rightarrow> Inr (st2\<lparr>in_dict := True, pos_in_arr := 0\<rparr>)
                       | _ \<Rightarrow>
                           (let stack_head = last (stack st2); stk = butlast (stack st2)
                            in if stk \<noteq> [] \<and> \<not> snd stack_head then
                                 (case fst stack_head of
                                    PInt n \<Rightarrow>
                                      Inr (st2\<lparr>stack := stk, in_dict := snd stack_head,
                                               pos_in_arr := n + 1\<rparr>)
                                  | _ \<Rightarrow> Inl (st2\<lparr>stack := stk, in_dict := snd stack_head\<rparr>))
                               else Inr (st2\<lparr>stack := stk, in_dict := snd stack_head,
                                             pos_in_arr := 0\<rparr>))) of
                   Inl st3 \<Rightarrow> (st3, Some TypeError)
                 | Inr st3 \<Rightarrow>
                     (if data_type node = '']'' \<and> in_nodes jbeam_part 2 (stack st3) then
                        (case id_in_deletes (jbeam_node_id st3) to_delete of
                           Inl e \<Rightarrow> (st3, Some e)
                         | Inr True \<Rightarrow>
                             (case delete_jbeam_node (tokens st3) (section_start_idx st3)
                                     (entry_start_idx st3) (entry_end_idx st3) of
                                (nodes', Inl e) \<Rightarrow> (st3\<lparr>tokens := nodes'\<rparr>, Some e)
                              | (nodes', Inr i') \<Rightarrow>
                                  (st3\<lparr>tokens := nodes', cursor := i', entry_start_idx := None,
                                       jbeam_node_id := PNone\<rparr>, None))
                         | Inr False \<Rightarrow>
                             (st3\<lparr>entry_start_idx := None, jbeam_node_id := PNone\<rparr>, None))
                      else (st3, None))))
      else (st, None))"

text \<open>One pass of the \<open>while\<close> loop, started with \<open>i < len(ast_nodes)\<close>.\<close>

definition patch_step :: "pyval \<Rightarrow> pyval \<Rightarrow> string \<Rightarrow> (string \<times> pos) list \<Rightarrow> (string \<times> pos) list
    \<Rightarrow> patch_state \<Rightarrow> patch_state \<times> pyerr option" where
  "patch_step original modified jbeam_part to_add to_delete st =
     (case py_pos (length (tokens st)) (cursor st) of
        Inl e \<Rightarrow> (st, Some e)
      | Inr p \<Rightarrow>
          (let node = tokens st ! p
           in if data_type node = ''wsc'' then (st\<lparr>cursor := cursor st + 1\<rparr>, None)
              else
                (case (if in_dict st then dict_phase original modified p node st
                       else array_phase original modified jbeam_part p node st) of
                   (st1, Some e) \<Rightarrow> (st1, Some e)
                 | (st1, None) \<Rightarrow>
                     (case close_phase jbeam_part to_add to_delete node
                             (open_phase jbeam_part node st1) of
                        (st2, Some e) \<Rightarrow> (st2, Some e)
                      | (st2, None) \<Rightarrow> (st2\<lparr>cursor := cursor st2 + 1\<rparr>, None)))))"

datatype run_outcome = Finished | Exception pyerr | OutOfFuel

text \<open>The loop, run for at most \<open>fuel\<close> passes.\<close>

fun patch_loop :: "nat \<Rightarrow> pyval \<Rightarrow> pyval \<Rightarrow> string \<Rightarrow> (string \<times> pos) list \<Rightarrow> (string \<times> pos) list
    \<Rightarrow> patch_state \<Rightarrow> patch_state \<times> run_outcome" where
  "patch_loop fuel original modified jbeam_part to_add to_delete st =
     (if cursor st < int (length (tokens st)) then
        (case fuel of
           0 \<Rightarrow> (st, OutOfFuel)
         | Suc n \<Rightarrow>
             (case patch_step original modified jbeam_part to_add to_delete st of
                (st', Some e) \<Rightarrow> (st', Exception e)
              | (st', None) \<Rightarrow> patch_loop n original modified jbeam_part to_add to_delete st'))
      else (st, Finished))"

definition initial_patch_state :: "ASTNode list \<Rightarrow> patch_state" where
  "initial_patch_state ast_nodes =
     \<lparr> tokens = ast_nodes, stack = [], in_dict = True, pos_in_arr = 0,
       temp_dict_key = PNone, dict_key = PNone,
       entry_start_idx = None, entry_end_idx = None,
       section_start_idx = None, section_end_idx = None,
       jbeam_node_id = PNone, cursor = 0 \<rparr>"

text \<open>
  \<open>update_ast_nodes\<close>: the token list as the call leaves it, and whether it finished,
  raised, or was cut off by the fuel. The arguments are \<open>ast_nodes\<close>,
  \<open>current_jbeam_file_data\<close>, \<open>current_jbeam_file_data_modified\<close>, \<open>jbeam_part\<close>,
  \<open>nodes_to_add\<close> and \<open>nodes_to_delete\<close>.
\<close>

definition update_ast_nodes :: "nat \<Rightarrow> ASTNode list \<Rightarrow> pyval \<Rightarrow> pyval \<Rightarrow> string
    \<Rightarrow> (string \<times> pos) list \<Rightarrow> (string \<times> pos) list \<Rightarrow> ASTNode list \<times> run_outcome" where
  "update_ast_nodes fuel ast_nodes original modified jbeam_part to_add to_delete =
     (case patch_loop fuel original modified jbeam_part to_add to_delete
             (initial_patch_state ast_nodes) of
        (st, out) \<Rightarrow> (tokens st, out))"

section \<open>The node reconciler (export\_vehicle.py)\<close>

text \<open>
  \<open>_get_nodes_add_delete_rename\<close>. Of the mesh the function reads, for each vertex,
  three string layers and the position \<open>obj.matrix_world @ v.co\<close>, whose coordinates
  are Python floats; it writes the layer of the initial node id. The layers are taken as
  decoded strings.
\<close>

record bm_vert =
  v_init_node_id :: string
  v_node_id :: string
  v_part_origin :: string
  v_new_pos :: "pyfloat \<times> pyfloat \<times> pyfloat"

text \<open>A value of \<open>all_nodes\<close>: the dict with the optional items \<open>'blender_node'\<close>
  (initial id, current id, position) and \<open>'jbeam_node'\<close> (current id, position).\<close>

record node_entry =
  blender_node :: "(string \<times> string \<times> pos) option"
  jbeam_node :: "(string \<times> pos) option"

text \<open>\<open>if not k in all_nodes: all_nodes[k] = {}\<close>, followed by the store of one
  item.\<close>

definition entry_of :: "(string \<times> node_entry) list \<Rightarrow> string \<Rightarrow> node_entry" where
  "entry_of all_nodes k =
     (case map_of all_nodes k of
        Some e \<Rightarrow> e
      | None \<Rightarrow> \<lparr> blender_node = None, jbeam_node = None \<rparr>)"

text \<open>
  The loop over \<open>bm.verts\<close>. Its state is \<open>node_id_to_part_origin\<close>, \<open>node_renames\<close>
  and \<open>all_nodes\<close>; the vertices are returned as the loop leaves them. The coordinates
  being floats, \<open>to_c_float\<close> is the cast here.
\<close>

fun scan_verts :: "string \<Rightarrow> bm_vert list
    \<Rightarrow> (string \<times> string) list \<times> (string \<times> string) list \<times> (string \<times> node_entry) list
    \<Rightarrow> bm_vert list \<times> (string \<times> string) list \<times> (string \<times> string) list
         \<times> (string \<times> node_entry) list" where
  "scan_verts jbeam_part [] (node_id_to_part_origin, node_renames, all_nodes) =
     ([], node_id_to_part_origin, node_renames, all_nodes)"
| "scan_verts jbeam_part (v # verts) (node_id_to_part_origin, node_renames, all_nodes) =
     (let origins1 = dict_set node_id_to_part_origin (v_node_id v) (v_part_origin v)
      in if v_part_origin v \<noteq> jbeam_part then
           (case scan_verts jbeam_part verts (origins1, node_renames, all_nodes) of
              (verts', result) \<Rightarrow> (v # verts', result))
         else
           (let pos_tup = (c_float (fst (v_new_pos v)), c_float (fst (snd (v_new_pos v))),
                           c_float (snd (snd (v_new_pos v))));
                renames1 = (if v_init_node_id v \<noteq> v_node_id v
                            then dict_set node_renames (v_init_node_id v) (v_node_id v)
                            else node_renames);
                nodes1 = dict_set all_nodes (v_node_id v)
                           ((entry_of all_nodes (v_node_id v))
                              \<lparr>blender_node := Some (v_init_node_id v, v_node_id v, pos_tup)\<rparr>)
            in case scan_verts jbeam_part verts (origins1, renames1, nodes1) of
                 (verts', result) \<Rightarrow> (v\<lparr>v_init_node_id := v_node_id v\<rparr> # verts', result)))"

text \<open>
  \<open>if jbeam_part in data and 'nodes' in data[jbeam_part]\<close>, and then
  \<open>data[jbeam_part]['nodes']\<close>: the node section, or \<open>None\<close> when the test fails.
\<close>

definition nodes_section_of :: "pydict \<Rightarrow> string \<Rightarrow> pyerr + pyval option" where
  "nodes_section_of data jbeam_part =
     (case pd_get data (KStr jbeam_part) of
        None \<Rightarrow> Inr None
      | Some part \<Rightarrow>
          (case py_contains part (PStr ''nodes'') of
             Inl e \<Rightarrow> Inl e
           | Inr False \<Rightarrow> Inr None
           | Inr True \<Rightarrow>
               (case py_getitem part (PStr ''nodes'') of
                  Inl e \<Rightarrow> Inl e
                | Inr nodes_section \<Rightarrow> Inr (Some nodes_section))))"

text \<open>
  \<open>for i, row_data in enumerate(nodes_section): if i == 0: continue;
  row_data = nodes_section[i]\<close>: the rows that the first loop over the section reads,
  each the value of \<open>nodes_section[i]\<close> or the exception it raises. A list, a dict and
  a string can be iterated.
\<close>

definition indexed_rows :: "pyval \<Rightarrow> pyerr + (pyerr + pyval) list" where
  "indexed_rows nodes_section =
     (case nodes_section of
        PList rows \<Rightarrow> Inr (map Inr (drop 1 rows))
      | PDict d \<Rightarrow> Inr (map (\<lambda>i. pd_item d (KInt (int i))) [1 ..< length d])
      | PStr s \<Rightarrow> Inr (map (\<lambda>c. Inr (PStr [c])) (drop 1 s))
      | _ \<Rightarrow> Inl TypeError)"

text \<open>\<open>node_id_to_part_origin[curr_node_id]\<close>: the keys of that dict are strings.\<close>

definition part_origin_of :: "(string \<times> string) list \<Rightarrow> pyval \<Rightarrow> pyerr + string \<times> string" where
  "part_origin_of node_id_to_part_origin curr_node_id =
     (case curr_node_id of
        PStr s \<Rightarrow>
          (case map_of node_id_to_part_origin s of
             None \<Rightarrow> Inl KeyError
           | Some origin \<Rightarrow> Inr (s, origin))
      | PList xs \<Rightarrow> Inl TypeError
      | PDict d \<Rightarrow> Inl TypeError
      | PMeta d \<Rightarrow> Inl TypeError
      | _ \<Rightarrow> Inl KeyError)"

text \<open>\<open>(to_c_float(row_data[1]), to_c_float(row_data[2]), to_c_float(row_data[3]))\<close>\<close>

definition row_pos :: "pyval list \<Rightarrow> pyerr + pos" where
  "row_pos cells =
     (case py_index cells 1 of
        Inl e \<Rightarrow> Inl e
      | Inr a \<Rightarrow>
          (case to_c_float a of
             Inl e \<Rightarrow> Inl e
           | Inr x \<Rightarrow>
               (case py_index cells 2 of
                  Inl e \<Rightarrow> Inl e
                | Inr b \<Rightarrow>
                    (case to_c_float b of
                       Inl e \<Rightarrow> Inl e
                     | Inr y \<Rightarrow>
                         (case py_index cells 3 of
                            Inl e \<Rightarrow> Inl e
                          | Inr c \<Rightarrow>
                              (case to_c_float c of
                                 Inl e \<Rightarrow> Inl e
                               | Inr z \<Rightarrow> Inr (x, y, z)))))))"

text \<open>The first loop over the node section (lines 286 to 301): the nodes of the file.\<close>

fun scan_rows :: "string \<Rightarrow> (string \<times> string) list \<Rightarrow> (pyerr + pyval) list
    \<Rightarrow> (string \<times> node_entry) list \<Rightarrow> pyerr + (string \<times> node_entry) list" where
  "scan_rows jbeam_part node_id_to_part_origin [] all_nodes = Inr all_nodes"
| "scan_rows jbeam_part node_id_to_part_origin (Inl e # rest) all_nodes = Inl e"
| "scan_rows jbeam_part node_id_to_part_origin (Inr row_data # rest) all_nodes =
     (case row_data of
        PList cells \<Rightarrow>
          (case py_index cells 0 of
             Inl e \<Rightarrow> Inl e
           | Inr curr_node_id \<Rightarrow>
               (case part_origin_of node_id_to_part_origin curr_node_id of
                  Inl e \<Rightarrow> Inl e
                | Inr (k, origin) \<Rightarrow>
                    (if jbeam_part \<noteq> origin
                     then scan_rows jbeam_part node_id_to_part_origin rest all_nodes
                     else
                       (case row_pos cells of
                          Inl e \<Rightarrow> Inl e
                        | Inr p \<Rightarrow>
                            scan_rows jbeam_part node_id_to_part_origin rest
                              (dict_set all_nodes k
                                 ((entry_of all_nodes k)\<lparr>jbeam_node := Some (k, p)\<rparr>))))))
      | _ \<Rightarrow> scan_rows jbeam_part node_id_to_part_origin rest all_nodes)"

text \<open>The loop over \<open>all_nodes.items()\<close> (lines 305 to 313): a node of the mesh only
  is to be added, a node of the file only is to be deleted.\<close>

fun sort_nodes :: "(string \<times> node_entry) list \<Rightarrow> rename_state \<Rightarrow> rename_state" where
  "sort_nodes [] st = st"
| "sort_nodes ((k, data) # rest) st =
     (case jbeam_node data of
        None \<Rightarrow>
          (case blender_node data of
             Some (init_id, curr_id, p) \<Rightarrow>
               sort_nodes rest (st\<lparr>nodes_to_add := dict_set (nodes_to_add st) k p\<rparr>)
           | None \<Rightarrow> sort_nodes rest st)
      | Some (curr_id, p) \<Rightarrow>
          (case blender_node data of
             None \<Rightarrow> sort_nodes rest (st\<lparr>nodes_to_delete := dict_set (nodes_to_delete st) k p\<rparr>)
           | Some b \<Rightarrow> sort_nodes rest st))"

text \<open>The loop over \<open>node_renames.items()\<close> (lines 318 to 323): the renames made in
  the mesh.\<close>

fun rename_by_identity :: "(string \<times> string) list \<Rightarrow> rename_state \<Rightarrow> rename_state" where
  "rename_by_identity [] st = st"
| "rename_by_identity ((init_id, curr_id) # rest) st =
     (if dict_has (nodes_to_delete st) init_id \<and> dict_has (nodes_to_add st) curr_id then
        rename_by_identity rest
          \<lparr> nodes_to_add = dict_del (nodes_to_add st) curr_id,
            nodes_to_delete = dict_del (nodes_to_delete st) init_id,
            true_node_renames = dict_set (true_node_renames st) init_id curr_id \<rparr>
      else rename_by_identity rest st)"

text \<open>
  One row of the second loop over the node section (lines 354 to 372), which writes the
  new ids and positions into the copy of the data: the row as it is left. The positions
  are Python floats.
\<close>

definition update_row :: "string \<Rightarrow> (string \<times> string) list \<Rightarrow> (string \<times> node_entry) list
    \<Rightarrow> (string \<times> string) list \<Rightarrow> pyval \<Rightarrow> pyerr + pyval" where
  "update_row jbeam_part node_id_to_part_origin all_nodes renames row_data =
     (case row_data of
        PList cells \<Rightarrow>
          (case py_index cells 0 of
             Inl e \<Rightarrow> Inl e
           | Inr curr_node_id \<Rightarrow>
               (case part_origin_of node_id_to_part_origin curr_node_id of
                  Inl e \<Rightarrow> Inl e
                | Inr (k, origin) \<Rightarrow>
                    (if jbeam_part \<noteq> origin then Inr row_data
                     else
                       (case map_of renames k of
                          Some new_node_id \<Rightarrow>
                            (case map_of all_nodes new_node_id of
                               None \<Rightarrow> Inl KeyError
                             | Some data \<Rightarrow>
                                 (case blender_node data of
                                    None \<Rightarrow> Inl KeyError
                                  | Some (init_id, curr_id, (x, y, z)) \<Rightarrow>
                                      (if length cells < 4 then Inl IndexError
                                       else Inr (PList (cells[0 := PStr new_node_id,
                                                          1 := PFloat x, 2 := PFloat y,
                                                          3 := PFloat z])))))
                        | None \<Rightarrow>
                            (case map_of all_nodes k of
                               None \<Rightarrow> Inl KeyError
                             | Some data \<Rightarrow>
                                 (case blender_node data of
                                    None \<Rightarrow> Inr row_data
                                  | Some (init_id, curr_id, (x, y, z)) \<Rightarrow>
                                      (if length cells < 4 then Inl IndexError
                                       else Inr (PList (cells[1 := PFloat x, 2 := PFloat y,
                                                          3 := PFloat z])))))))))
      | _ \<Rightarrow> Inr row_data)"

fun update_rows :: "string \<Rightarrow> (string \<times> string) list \<Rightarrow> (string \<times> node_entry) list
    \<Rightarrow> (string \<times> string) list \<Rightarrow> pyval list \<Rightarrow> pyerr + pyval list" where
  "update_rows jbeam_part node_id_to_part_origin all_nodes renames [] = Inr []"
| "update_rows jbeam_part node_id_to_part_origin all_nodes renames (row_data # rest) =
     (case update_row jbeam_part node_id_to_part_origin all_nodes renames row_data of
        Inl e \<Rightarrow> Inl e
      | Inr row' \<Rightarrow>
          (case update_rows jbeam_part node_id_to_part_origin all_nodes renames rest of
             Inl e \<Rightarrow> Inl e
           | Inr rest' \<Rightarrow> Inr (row' # rest')))"

text \<open>
  The copy of the data with the rows of its node section replaced (the second loop changes
  the rows in place). In a section that is not a list the loop meets keys or characters,
  never a list, and changes nothing.
\<close>

definition update_section :: "string \<Rightarrow> (string \<times> string) list \<Rightarrow> (string \<times> node_entry) list
    \<Rightarrow> (string \<times> string) list \<Rightarrow> pydict \<Rightarrow> pyerr + pydict" where
  "update_section jbeam_part node_id_to_part_origin all_nodes renames data =
     (case nodes_section_of data jbeam_part of
        Inl e \<Rightarrow> Inl e
      | Inr None \<Rightarrow> Inr data
      | Inr (Some nodes_section) \<Rightarrow>
          (case (nodes_section, pd_get data (KStr jbeam_part)) of
             (PList (header # rows), Some (PDict part)) \<Rightarrow>
               (case update_rows jbeam_part node_id_to_part_origin all_nodes renames rows of
                  Inl e \<Rightarrow> Inl e
                | Inr rows' \<Rightarrow>
                    Inr (pd_set data (KStr jbeam_part)
                           (PDict (pd_set part (KStr ''nodes'') (PList (header # rows'))))))
           | _ \<Rightarrow> Inr data))"

text \<open>
  The function: the vertices as it leaves them, and the tuple it returns (the nodes to
  add, the nodes to delete, the renames and the modified copy of the data) or the
  exception it raises.
\<close>

definition get_nodes_add_delete_rename :: "bm_vert list \<Rightarrow> pydict \<Rightarrow> string
    \<Rightarrow> bm_vert list \<times> (pyerr + (string \<times> pos) list \<times> (string \<times> pos) list
                          \<times> (string \<times> string) list \<times> pydict)" where
  "get_nodes_add_delete_rename verts current_jbeam_file_data jbeam_part =
     (case scan_verts jbeam_part verts ([], [], []) of
        (verts', node_id_to_part_origin, node_renames, all_nodes0) \<Rightarrow>
          (verts',
           (case (case nodes_section_of current_jbeam_file_data jbeam_part of
                    Inl e \<Rightarrow> Inl e
                  | Inr None \<Rightarrow> Inr all_nodes0
                  | Inr (Some nodes_section) \<Rightarrow>
                      (case indexed_rows nodes_section of
                         Inl e \<Rightarrow> Inl e
                       | Inr rows \<Rightarrow>
                           scan_rows jbeam_part node_id_to_part_origin rows all_nodes0)) of
              Inl e \<Rightarrow> Inl e
            | Inr all_nodes \<Rightarrow>
                (let st0 = sort_nodes all_nodes
                             \<lparr> nodes_to_add = [], nodes_to_delete = [], true_node_renames = [] \<rparr>;
                     st1 = rename_by_identity node_renames st0
                 in case rename_by_position st1 of
                      Inl e \<Rightarrow> Inl e
                    | Inr st2 \<Rightarrow>
                        (case update_section jbeam_part node_id_to_part_origin all_nodes
                                (true_node_renames st2) current_jbeam_file_data of
                           Inl e \<Rightarrow> Inl e
                         | Inr modified \<Rightarrow>
                             Inr (nodes_to_add st2, nodes_to_delete st2,
                                  true_node_renames st2, modified))))))"

text \<open>
  Two properties of the state of the loops: every node id whose origin is the part has an
  entry with a \<open>blender_node\<close>, and every entry with a \<open>jbeam_node\<close> has a
  \<open>blender_node\<close>.
\<close>

definition origin_has_blender :: "string \<Rightarrow> (string \<times> string) list \<Rightarrow> (string \<times> node_entry) list \<Rightarrow> bool" where
  "origin_has_blender part origins nodes \<longleftrightarrow>
     (\<forall>s. map_of origins s = Some part \<longrightarrow>
        (\<exists>e. map_of nodes s = Some e \<and> blender_node e \<noteq> None))"

definition jbeam_has_blender :: "(string \<times> node_entry) list \<Rightarrow> bool" where
  "jbeam_has_blender nodes \<longleftrightarrow>
     (\<forall>(s, e) \<in> set nodes. jbeam_node e \<noteq> None \<longrightarrow> blender_node e \<noteq> None)"

section \<open>Results\<close>

subsection \<open>post\_process and the sparse-map conversion\<close>

text \<open>
  C8. The claim is that post-processing fails when the sparse-map conversion meets a key
  that is not an integer. On the vehicle \<open>{"t": {0: "a", "k": "b"}}\<close> the conversion
  decides to convert section \<open>t\<close> (its first key is an integer), meets the key \<open>"k"\<close>
  and returns \<open>False\<close>; \<open>post_process\<close> drops that result and returns \<open>True\<close>.
\<close>

theorem post_process_ignores_conversion_failure:
  "convert_dict_to_list_tables
     [(KStr ''t'', PDict [(KInt 0, PStr ''a''), (KStr ''k'', PStr ''b'')])]
     = (PBool False, [(KStr ''t'', PDict [(KInt 0, PStr ''a''), (KStr ''k'', PStr ''b'')])])
   \<and> post_process [(KStr ''t'', PDict [(KInt 0, PStr ''a''), (KStr ''k'', PStr ''b'')])]
     = Inr (True, [(KStr ''t'', PDict [(KInt 0, PStr ''a''), (KStr ''k'', PStr ''b'')])])"
  by (simp add: post_process_def convert_dict_to_list_tables_def check_node_references_def)

subsection \<open>The table schema processor\<close>

lemmas table_defs =
  process_table_with_schema_destructive_def header_with_options_def
  initial_state_def initial_options_def process_row_def process_entry_row_def
  process_options_row_def merge_inline_options_def ensure_metadata_def pd_has_def
  pd_item_def key_eq_def meta_merge_def Let_def

text \<open>Equality of keys is an equivalence, and the dict operations respect it.\<close>

lemma key_eq_refl: "key_eq k k" by (simp add: key_eq_def)

lemma key_eq_KMeta [simp]: "key_eq KMeta k \<longleftrightarrow> k = KMeta" "key_eq k KMeta \<longleftrightarrow> k = KMeta"
  by (cases k; simp add: key_eq_def)+

lemma key_eq_KStr [simp]: "key_eq (KStr s) k \<longleftrightarrow> k = KStr s" "key_eq k (KStr s) \<longleftrightarrow> k = KStr s"
  by (cases k; auto simp add: key_eq_def)+

lemma pd_get_set: "pd_get (pd_set d k v) k' = (if key_eq k k' then Some v else pd_get d k')"
  by (induction d) (auto simp: key_eq_def)


lemma pd_get_append:
  "pd_get (a @ b) k = (case pd_get a k of Some v \<Rightarrow> Some v | None \<Rightarrow> pd_get b k)"
  by (induction a) auto

lemma pd_get_update:
  "pd_get (pd_update d e) k = (case pd_get (rev e) k of Some v \<Rightarrow> Some v | None \<Rightarrow> pd_get d k)"
proof (induction e arbitrary: d)
  case Nil
  then show ?case by simp
next
  case (Cons x e)
  obtain k' v' where x: "x = (k', v')" by (cases x)
  show ?case
    by (simp add: x Cons.IH pd_get_set pd_get_append split: option.splits)
qed






















text \<open>The call as a whole.\<close>

lemma process_table_miss_list:
  assumes "memo (fp (PList header0 # rows) input_options) = None" and "header0 \<noteq> []"
  shows "process_table_with_schema_destructive mg fp memo (PList header0 # rows)
           new_dict0 input_options =
         (case walk_rows mg (header_with_options header0) (length header0) 0 rows
                 (initial_state input_options new_dict0) of
            (rows', Raised e) \<Rightarrow>
              \<lparr> returned = Inl e, table_after = rows',
                header_after = Some (PList (header_with_options header0)),
                dict_after = dict_walked mg (header_with_options header0) (length header0) 0 rows
                               (initial_state input_options new_dict0),
                memo_after = memo \<rparr>
          | (rows', Failed) \<Rightarrow>
              \<lparr> returned = Inr (- 1), table_after = rows',
                header_after = Some (PList (header_with_options header0)),
                dict_after = dict_walked mg (header_with_options header0) (length header0) 0 rows
                               (initial_state input_options new_dict0),
                memo_after = memo \<rparr>
          | (rows', Next st) \<Rightarrow>
              \<lparr> returned = Inr (new_list_size st), table_after = rows',
                header_after = Some (PList (header_with_options header0)),
                dict_after = new_dict st,
                memo_after = memo(fp (PList header0 # rows) input_options
                                    \<mapsto> (new_dict st, new_list_size st)) \<rparr>)"
  using assms by (simp add: process_table_with_schema_destructive_def Let_def)

lemma process_table_miss_not_list:
  assumes "memo (fp (header # rows) input_options) = None" and "\<forall>h. header \<noteq> PList h"
  shows "process_table_with_schema_destructive mg fp memo (header # rows) new_dict0 input_options =
         \<lparr> returned = Inr (- 1), table_after = header # rows, header_after = Some header,
           dict_after = new_dict0, memo_after = memo \<rparr>"
  using assms by (cases header) (simp_all add: process_table_with_schema_destructive_def)

lemma miss_list_fields:
  assumes "memo (fp (PList header0 # rows) input_options) = None" and "header0 \<noteq> []"
  shows "returned (process_table_with_schema_destructive mg fp memo (PList header0 # rows)
           new_dict0 input_options) =
         (case snd (walk_rows mg (header_with_options header0) (length header0) 0 rows
                 (initial_state input_options new_dict0)) of
            Raised e \<Rightarrow> Inl e | Failed \<Rightarrow> Inr (- 1) | Next st \<Rightarrow> Inr (new_list_size st))"
    and "table_after (process_table_with_schema_destructive mg fp memo (PList header0 # rows)
           new_dict0 input_options) =
         fst (walk_rows mg (header_with_options header0) (length header0) 0 rows
                 (initial_state input_options new_dict0))"
    and "header_after (process_table_with_schema_destructive mg fp memo (PList header0 # rows)
           new_dict0 input_options) = Some (PList (header_with_options header0))"
    and "memo_after (process_table_with_schema_destructive mg fp memo (PList header0 # rows)
           new_dict0 input_options) =
         (case snd (walk_rows mg (header_with_options header0) (length header0) 0 rows
                 (initial_state input_options new_dict0)) of
            Next st \<Rightarrow> memo(fp (PList header0 # rows) input_options
                             \<mapsto> (new_dict st, new_list_size st))
          | _ \<Rightarrow> memo)"
    and "dict_after (process_table_with_schema_destructive mg fp memo (PList header0 # rows)
           new_dict0 input_options) =
         (case snd (walk_rows mg (header_with_options header0) (length header0) 0 rows
                 (initial_state input_options new_dict0)) of
            Next st \<Rightarrow> new_dict st
          | _ \<Rightarrow> dict_walked mg (header_with_options header0) (length header0) 0 rows
                 (initial_state input_options new_dict0))"
  using process_table_miss_list[of memo fp header0 rows input_options mg new_dict0] assms
  by (auto split: prod.splits row_outcome.splits)

lemma process_table_hit:
  assumes "memo (fp jbeam_table input_options) = Some (d, n)"
  shows "process_table_with_schema_destructive mg fp memo jbeam_table new_dict0 input_options =
         \<lparr> returned = Inr n, table_after = jbeam_table,
           header_after = (case jbeam_table of [] \<Rightarrow> None | h # _ \<Rightarrow> Some h),
           dict_after = pd_update new_dict0 d, memo_after = memo \<rparr>"
  using assms by (simp add: process_table_with_schema_destructive_def)

lemma memo_after_keeps:
  assumes "memo k = Some v"
  shows "memo_after (process_table_with_schema_destructive mg fp memo jbeam_table new_dict0
            input_options) k = Some v"
proof (cases "memo (fp jbeam_table input_options)")
  case (Some a)
  then show ?thesis using assms
    by (cases a) (simp add: process_table_with_schema_destructive_def)
next
  case None
  then have "k \<noteq> fp jbeam_table input_options" using assms by auto
  with None assms show ?thesis
    by (auto simp: process_table_with_schema_destructive_def Let_def
        split: list.splits pyval.splits prod.splits row_outcome.splits)
qed






text \<open>
  C7. A call that returns a value other than \<open>-1\<close> leaves an entry for the fingerprint
  of its arguments in the memo: the row count it returned and a map \<open>d\<close>, which is the
  output map of the call when the call itself was not served from the memo. No later
  call removes or changes the entry. Any call whose arguments have that fingerprint
  returns the same count and leaves its table, its header and the memo as they were (the
  rows are not processed again), and its output map then holds every item of \<open>d\<close>: a key
  of \<open>d\<close> has the value it has in \<open>d\<close>, any other key the value it had before the call.
\<close>
theorem successful_call_is_memoized:
  assumes ret: "returned (process_table_with_schema_destructive mg fp memo jbeam_table new_dict0
                   input_options) = Inr n"
    and ok: "n \<noteq> - 1"
  shows "\<exists>d. memo_after (process_table_with_schema_destructive mg fp memo jbeam_table new_dict0
                 input_options) (fp jbeam_table input_options) = Some (d, n)
           \<and> (memo (fp jbeam_table input_options) = None \<longrightarrow>
                dict_after (process_table_with_schema_destructive mg fp memo jbeam_table
                   new_dict0 input_options) = d)
           \<and> (\<forall>mg' table1 dict1 options1.
                 memo_after (process_table_with_schema_destructive mg' fp
                     (memo_after (process_table_with_schema_destructive mg fp memo jbeam_table
                        new_dict0 input_options))
                     table1 dict1 options1) (fp jbeam_table input_options) = Some (d, n))
           \<and> (\<forall>mg' memo' table' dict' options'.
                 memo' (fp table' options') = Some (d, n) \<longrightarrow>
                 returned (process_table_with_schema_destructive mg' fp memo' table' dict'
                    options') = Inr n
                 \<and> table_after (process_table_with_schema_destructive mg' fp memo' table' dict'
                    options') = table'
                 \<and> header_after (process_table_with_schema_destructive mg' fp memo' table' dict'
                    options') = (case table' of [] \<Rightarrow> None | h # _ \<Rightarrow> Some h)
                 \<and> memo_after (process_table_with_schema_destructive mg' fp memo' table' dict'
                    options') = memo'
                 \<and> (\<forall>k. pd_get (dict_after (process_table_with_schema_destructive mg' fp memo'
                             table' dict' options')) k =
                          (case pd_get (rev d) k of
                             Some v \<Rightarrow> Some v
                           | None \<Rightarrow> pd_get dict' k)))"
proof -
  let ?res = "process_table_with_schema_destructive mg fp memo jbeam_table new_dict0 input_options"
  have main: "\<exists>d. memo_after ?res (fp jbeam_table input_options) = Some (d, n)
           \<and> (memo (fp jbeam_table input_options) = None \<longrightarrow> dict_after ?res = d)"
  proof (cases "memo (fp jbeam_table input_options)")
    case (Some a)
    obtain d m where a: "a = (d, m)" by (cases a)
    note hit = process_table_hit[of memo fp jbeam_table input_options d m mg new_dict0,
        OF Some[unfolded a]]
    have "m = n" using ret hit by simp
    then show ?thesis
      using hit Some a by (intro exI[of _ d]) simp
  next
    case None
    show ?thesis
    proof (cases jbeam_table)
      case Nil
      with None ret show ?thesis by (simp add: process_table_with_schema_destructive_def)
    next
      case (Cons header rows)
      show ?thesis
      proof (cases "\<exists>h. header = PList h")
        case False
        then have "returned ?res = Inr (- 1)"
          using process_table_miss_not_list[of memo fp header rows input_options mg new_dict0] None
          unfolding Cons by simp
        with ret ok show ?thesis by simp
      next
        case True
        then obtain h where h: "header = PList h" by blast
        have ne: "h \<noteq> []"
          using ret None unfolding Cons h
          by (auto simp: process_table_with_schema_destructive_def)
        let ?w = "walk_rows mg (header_with_options h) (length h) 0 rows
                     (initial_state input_options new_dict0)"
        note f = miss_list_fields[of memo fp h rows input_options mg new_dict0,
            OF None[unfolded Cons h] ne, folded h, folded Cons]
        show ?thesis
        proof (cases "snd ?w")
          case (Raised e)
          with f(1) ret show ?thesis by simp
        next
          case Failed
          with f(1) ret ok show ?thesis by simp
        next
          case (Next st)
          have "new_list_size st = n" using f(1) ret Next by simp
          then show ?thesis
            using f(4,5) Next None by (intro exI[of _ "new_dict st"]) simp
        qed
      qed
    qed
  qed
  then obtain d where d: "memo_after ?res (fp jbeam_table input_options) = Some (d, n)"
    "memo (fp jbeam_table input_options) = None \<longrightarrow> dict_after ?res = d"
    by auto
  have keep: "\<forall>mg' table1 dict1 options1.
     memo_after (process_table_with_schema_destructive mg' fp (memo_after ?res)
        table1 dict1 options1) (fp jbeam_table input_options) = Some (d, n)"
  proof (intro allI)
    fix mg' :: "pydict \<Rightarrow> pydict \<Rightarrow> pydict" and table1 dict1 options1
    show "memo_after (process_table_with_schema_destructive mg' fp (memo_after ?res)
        table1 dict1 options1) (fp jbeam_table input_options) = Some (d, n)"
      by (rule memo_after_keeps) (rule d(1))
  qed
  have hit: "\<forall>mg' memo' table' dict' options'.
                 memo' (fp table' options') = Some (d, n) \<longrightarrow>
                 returned (process_table_with_schema_destructive mg' fp memo' table' dict'
                    options') = Inr n
                 \<and> table_after (process_table_with_schema_destructive mg' fp memo' table' dict'
                    options') = table'
                 \<and> header_after (process_table_with_schema_destructive mg' fp memo' table' dict'
                    options') = (case table' of [] \<Rightarrow> None | h # _ \<Rightarrow> Some h)
                 \<and> memo_after (process_table_with_schema_destructive mg' fp memo' table' dict'
                    options') = memo'
                 \<and> (\<forall>k. pd_get (dict_after (process_table_with_schema_destructive mg' fp memo'
                             table' dict' options')) k =
                          (case pd_get (rev d) k of
                             Some v \<Rightarrow> Some v
                           | None \<Rightarrow> pd_get dict' k))"
  proof (intro allI impI)
    fix mg' :: "pydict \<Rightarrow> pydict \<Rightarrow> pydict" and memo' table' dict' options'
    assume m: "memo' (fp table' options') = Some (d, n)"
    note h = process_table_hit[of memo' fp table' options' d n mg' dict', OF m]
    show "returned (process_table_with_schema_destructive mg' fp memo' table' dict'
                    options') = Inr n
                 \<and> table_after (process_table_with_schema_destructive mg' fp memo' table' dict'
                    options') = table'
                 \<and> header_after (process_table_with_schema_destructive mg' fp memo' table' dict'
                    options') = (case table' of [] \<Rightarrow> None | h # _ \<Rightarrow> Some h)
                 \<and> memo_after (process_table_with_schema_destructive mg' fp memo' table' dict'
                    options') = memo'
                 \<and> (\<forall>k. pd_get (dict_after (process_table_with_schema_destructive mg' fp memo'
                             table' dict' options')) k =
                          (case pd_get (rev d) k of
                             Some v \<Rightarrow> Some v
                           | None \<Rightarrow> pd_get dict' k))"
      unfolding h by (simp add: pd_get_update)
  qed
  show ?thesis
    apply (rule exI[of _ d])
    apply (intro conjI)
       apply (rule d(1))
      apply (rule d(2))
     apply (rule keep)
    apply (rule hit)
    done
qed

theorem successful_call_is_memoized_witness:
  "returned (process_table_with_schema_destructive (\<lambda>a b. a) (\<lambda>t opts. (t, opts)) (\<lambda>k. None)
      [PList [PStr ''id''], PList [PStr ''n1'']] [] None) = Inr 1
   \<and> dict_after (process_table_with_schema_destructive (\<lambda>a b. a) (\<lambda>t opts. (t, opts)) (\<lambda>k. None)
      [PList [PStr ''id''], PList [PStr ''n1'']] [] None) =
        [(KStr ''n1'', PDict [(KMeta, PMeta []), (KStr ''name'', PStr ''n1'')])]
   \<and> pd_get (dict_after (process_table_with_schema_destructive (\<lambda>a b. a) (\<lambda>t opts. (t, opts))
        (memo_after (process_table_with_schema_destructive (\<lambda>a b. a) (\<lambda>t opts. (t, opts))
           (\<lambda>k. None) [PList [PStr ''id''], PList [PStr ''n1'']] [] None))
        [PList [PStr ''id''], PList [PStr ''n1'']] [(KStr ''z'', PInt 0)] None)) (KStr ''n1'') =
        Some (PDict [(KMeta, PMeta []), (KStr ''name'', PStr ''n1'')])
   \<and> returned (process_table_with_schema_destructive (\<lambda>a b. a) (\<lambda>t opts. (t, opts))
        (memo_after (process_table_with_schema_destructive (\<lambda>a b. a) (\<lambda>t opts. (t, opts))
           (\<lambda>k. None) [PList [PStr ''id''], PList [PStr ''n1'']] [] None))
        [PList [PStr ''id''], PList [PStr ''n1'']] [(KStr ''z'', PInt 0)] None) = Inr 1"
proof -
  let ?r = "process_table_with_schema_destructive (\<lambda>a b. a) (\<lambda>t opts. (t, opts))
      (\<lambda>k. None) [PList [PStr ''id''], PList [PStr ''n1'']] [] None"
  have ret: "returned ?r = Inr 1"
    by (simp add: table_defs)
  have da: "dict_after ?r = [(KStr ''n1'', PDict [(KMeta, PMeta []), (KStr ''name'', PStr ''n1'')])]"
    by (simp add: table_defs)
  have ok: "(1::int) \<noteq> - 1" by simp
  from successful_call_is_memoized[OF ret ok] obtain d where
    d: "memo_after ?r ([PList [PStr ''id''], PList [PStr ''n1'']], None) = Some (d, 1)"
       "dict_after ?r = d"
       "\<forall>mg' memo' table' dict' options'.
          memo' (table', options') = Some (d, 1) \<longrightarrow>
          returned (process_table_with_schema_destructive mg' (\<lambda>t opts. (t, opts)) memo' table' dict'
             options') = Inr 1
          \<and> (\<forall>k. pd_get (dict_after (process_table_with_schema_destructive mg' (\<lambda>t opts. (t, opts)) memo'
                      table' dict' options')) k =
                   (case pd_get (rev d) k of Some v \<Rightarrow> Some v | None \<Rightarrow> pd_get dict' k))"
    by auto
  note hit = d(3)[THEN spec[where x = "\<lambda>a b. a"], THEN spec[where x = "memo_after ?r"],
      THEN spec[where x = "[PList [PStr ''id''], PList [PStr ''n1'']]"],
      THEN spec[where x = "[(KStr ''z'', PInt 0)]"], THEN spec[where x = None], THEN mp, OF d(1)]
  have dd: "d = [(KStr ''n1'', PDict [(KMeta, PMeta []), (KStr ''name'', PStr ''n1'')])]"
    using d(2) da by simp
  from hit[unfolded dd] da ret
  show ?thesis by simp
qed




subsection \<open>Numeric comparison at single precision\<close>

text \<open>
  The doubles nearest to the literals are
  1.00005 = 4503824807351865 / 4503599627370496,
  1.00004 = 4503779771355591 / 4503599627370496 and
  1.0001 = 4504049987333233 / 4503599627370496 (the denominator is 2 to the power 52).
\<close>

lemma floorlog_eqI:
  assumes "1 < b" and "b ^ w \<le> x" and "x < b ^ Suc w"
  shows "floorlog b x = Suc w"
proof (rule antisym)
  show "floorlog b x \<le> Suc w" using assms by (intro floorlog_leI) auto
  show "Suc w \<le> floorlog b x" using assms by (intro floorlog_ge_SucI) auto
qed

lemma round_half_even_eqI:
  assumes "of_int n - 1 / 2 < x" and "x < of_int n + 1 / 2"
  shows "round_half_even x = n"
proof -
  have "\<lfloor>x\<rfloor> = n \<or> \<lfloor>x\<rfloor> = n - 1" using assms by linarith
  then show ?thesis
  proof
    assume f: "\<lfloor>x\<rfloor> = n"
    then have "x - of_int \<lfloor>x\<rfloor> < 1 / 2" using assms by simp
    then show ?thesis using f by (simp add: round_half_even_def Let_def)
  next
    assume f: "\<lfloor>x\<rfloor> = n - 1"
    then have "1 / 2 < x - of_int \<lfloor>x\<rfloor>" using assms by simp
    then show ?thesis using f by (simp add: round_half_even_def Let_def)
  qed
qed

lemma single_of_rat_eqI:
  assumes pos: "0 < x"
    and lo: "2 ^ w \<le> x * 2 ^ 149" and hi: "x * 2 ^ 149 < 2 ^ Suc w"
    and rl: "of_int n - 1 / 2 < x * 2 ^ 149 / 2 ^ (Suc w - 24)"
    and rh: "x * 2 ^ 149 / 2 ^ (Suc w - 24) < of_int n + 1 / 2"
    and fin: "of_int n * 2 ^ (Suc w - 24) / 2 ^ 149 < (2 :: rat) ^ 128"
    and nn: "0 \<le> n"
  shows "single_of_rat x = Fin (of_int n * 2 ^ (Suc w - 24) / 2 ^ 149)"
proof -
  let ?m = "\<bar>x\<bar> * 2 ^ 149"
  have m: "?m = x * 2 ^ 149" using pos by simp
  have "(2::int) ^ w \<le> \<lfloor>x * 2 ^ 149\<rfloor>"
  proof -
    have "of_int ((2::int) ^ w) \<le> x * 2 ^ 149" using lo by simp
    then show ?thesis by (simp only: le_floor_iff)
  qed
  then have "nat ((2::int) ^ w) \<le> nat \<lfloor>x * 2 ^ 149\<rfloor>"
    by (rule nat_mono)
  then have lo': "(2::nat) ^ w \<le> nat \<lfloor>x * 2 ^ 149\<rfloor>"
    by (simp add: nat_power_eq)
  have "\<lfloor>x * 2 ^ 149\<rfloor> < (2::int) ^ Suc w"
  proof -
    have "x * 2 ^ 149 < of_int ((2::int) ^ Suc w)" using hi by simp
    then show ?thesis by (simp only: floor_less_iff)
  qed
  then have "nat \<lfloor>x * 2 ^ 149\<rfloor> < nat ((2::int) ^ Suc w)"
    by (simp add: nat_mono_iff del: power_Suc)
  then have hi': "nat \<lfloor>x * 2 ^ 149\<rfloor> < (2::nat) ^ Suc w"
    by (simp add: nat_power_eq del: power_Suc)
  have l: "floorlog 2 (nat \<lfloor>x * 2 ^ 149\<rfloor>) = Suc w"
    by (rule floorlog_eqI) (use lo' hi' in simp_all)
  have r: "round_half_even (x * 2 ^ 149 / 2 ^ (Suc w - 24)) = n"
    by (rule round_half_even_eqI) (use rl rh in simp_all)
  have sg: "sgn x = 1" using pos by simp
  have ab: "\<bar>of_int n * (2::rat) ^ (Suc w - 24) / 2 ^ 149\<bar> = of_int n * 2 ^ (Suc w - 24) / 2 ^ 149"
    using nn by simp
  show ?thesis
    unfolding single_of_rat_def round_to_binary_def Let_def m l r sg
    using fin ab by simp
qed

lemma single_100005:
  "single_of_rat (4503824807351865 / 4503599627370496) = Fin (8389027 / 8388608)"
  using single_of_rat_eqI[of "4503824807351865 / 4503599627370496" 149 8389027]
  by simp

lemma single_100004:
  "single_of_rat (4503779771355591 / 4503599627370496) = Fin (524309 / 524288)"
  using single_of_rat_eqI[of "4503779771355591 / 4503599627370496" 149 8388944]
  by simp

lemma single_1:
  "single_of_rat 1 = Fin 1"
  using single_of_rat_eqI[of 1 149 8388608]
  by simp

lemma single_10001:
  "single_of_rat (4504049987333233 / 4503599627370496) = Fin (8389447 / 8388608)"
  using single_of_rat_eqI[of "4504049987333233 / 4503599627370496" 149 8389447]
  by simp


lemma set_number_node_value:
  "is_number data \<Longrightarrow> data_type node = ''number'' \<Longrightarrow>
   node_value (fst (set_number_node node data)) = data"
  by (auto simp: set_number_node_def is_number_def split: pyval.splits sum.splits)

lemma set_number_node_not_number:
  "\<not> is_number data \<Longrightarrow> set_number_node node data = (node, None)"
  by (cases data) (simp_all add: set_number_node_def is_number_def)

lemma set_number_node_raises_iff:
  "data_type node = ''number'' \<Longrightarrow>
   snd (set_number_node node data) =
     (case data of
        PFloat PosInf \<Rightarrow> Some OverflowError
      | PFloat NegInf \<Rightarrow> Some OverflowError
      | PInt n \<Rightarrow> (case float_of_int n of Inl e \<Rightarrow> Some e | Inr f \<Rightarrow> None)
      | _ \<Rightarrow> None)"
  apply (cases data)
         apply (auto simp: set_number_node_def float_of_int_def Let_def split: sum.splits if_splits)
  subgoal for f by (cases f) auto
  subgoal for f by (cases f) auto
  done

text \<open>
  C3, as the code has it. \<open>old_data\<close> and \<open>data\<close> are the values of the two trees at the
  token's path; a number is a value of type \<open>int\<close> or \<open>float\<close>.

  For a number token whose two values are numbers: if the conversion of the old value, or
  else of the new one, to a 32-bit float raises, the call raises and the token is as it
  was; otherwise the token is flagged exactly when the two 32-bit floats differ and the
  two values are unequal, and then \<open>set_number_node\<close> stores the new value. For two
  finite floats that is exactly when they differ as 32-bit floats.
  For a number token whose old value is not a number, \<open>set_number_node\<close> is called
  whatever the new value is; for one whose old value is a number and whose new value is
  not, the token is not flagged.
  \<open>set_number_node\<close> on a number token leaves the token as it was when the new value is
  not a number, stores the new value when it is, and raises \<open>OverflowError\<close> (after the
  store) exactly when the new value is an infinity or an integer beyond the range of a
  double; when it does not raise, the token is flagged.
  A token that is not a number is flagged and given the new value exactly when the two
  values are unequal for Python's \<open>==\<close>.
  The doubles for 1.00005 and 1.00004 differ as 32-bit floats, and so do 1.0 and the
  double for 1.0001.
\<close>

theorem numeric_diff_at_single_precision:
  assumes vals: "values_at original modified stk index = Inr (old_data, data)"
  shows "(data_type node = ''number'' \<and> is_number old_data \<and> is_number data \<longrightarrow>
            compare_and_set_value original modified stk index node =
              (case to_c_float old_data of
                 Inl e \<Rightarrow> (node, Inl e)
               | Inr a \<Rightarrow>
                   (case to_c_float data of
                      Inl e \<Rightarrow> (node, Inl e)
                    | Inr b \<Rightarrow>
                        (if a \<noteq> b \<and> \<not> py_eq old_data data then
                           (case set_number_node node data of
                              (node', None) \<Rightarrow> (node', Inr True)
                            | (node', Some e) \<Rightarrow> (node', Inl e))
                         else (node, Inr False)))))
       \<and> (data_type node = ''number'' \<and> old_data = PFloat (Fin x) \<and> data = PFloat (Fin y) \<longrightarrow>
            compare_and_set_value original modified stk index node =
              (if single_of_rat x \<noteq> single_of_rat y
               then (fst (set_number_node node data), Inr True) else (node, Inr False)))
       \<and> (data_type node = ''number'' \<and> \<not> is_number old_data \<longrightarrow>
            compare_and_set_value original modified stk index node =
              (case set_number_node node data of
                 (node', None) \<Rightarrow> (node', Inr True)
               | (node', Some e) \<Rightarrow> (node', Inl e)))
       \<and> (data_type node = ''number'' \<and> is_number old_data \<and> \<not> is_number data \<longrightarrow>
            compare_and_set_value original modified stk index node = (node, Inr False))
       \<and> (data_type node = ''number'' \<longrightarrow>
            (\<not> is_number data \<longrightarrow> set_number_node node data = (node, None))
          \<and> (is_number data \<longrightarrow> node_value (fst (set_number_node node data)) = data)
          \<and> snd (set_number_node node data) =
              (case data of
                 PFloat PosInf \<Rightarrow> Some OverflowError
               | PFloat NegInf \<Rightarrow> Some OverflowError
               | PInt n \<Rightarrow> (case float_of_int n of Inl e \<Rightarrow> Some e | Inr f \<Rightarrow> None)
               | _ \<Rightarrow> None))
       \<and> (data_type node \<noteq> ''number'' \<longrightarrow>
            compare_and_set_value original modified stk index node =
              (if py_eq old_data data then (node, Inr False)
               else (node\<lparr>node_value := data\<rparr>, Inr True)))
       \<and> single_of_rat (4503824807351865 / 4503599627370496)
            \<noteq> single_of_rat (4503779771355591 / 4503599627370496)
       \<and> single_of_rat 1 \<noteq> single_of_rat (4504049987333233 / 4503599627370496)"
proof (intro conjI impI)
  assume h: "data_type node = ''number'' \<and> is_number old_data \<and> is_number data"
  show "compare_and_set_value original modified stk index node =
              (case to_c_float old_data of
                 Inl e \<Rightarrow> (node, Inl e)
               | Inr a \<Rightarrow>
                   (case to_c_float data of
                      Inl e \<Rightarrow> (node, Inl e)
                    | Inr b \<Rightarrow>
                        (if a \<noteq> b \<and> \<not> py_eq old_data data then
                           (case set_number_node node data of
                              (node', None) \<Rightarrow> (node', Inr True)
                            | (node', Some e) \<Rightarrow> (node', Inl e))
                         else (node, Inr False))))"
    using h vals
    by (auto simp: compare_and_set_value_def number_changed_def
        split: prod.splits option.splits sum.splits)
next
  assume h: "data_type node = ''number'' \<and> old_data = PFloat (Fin x) \<and> data = PFloat (Fin y)"
  have "single_of_rat x \<noteq> single_of_rat y \<Longrightarrow> x \<noteq> y" by auto
  then show "compare_and_set_value original modified stk index node =
              (if single_of_rat x \<noteq> single_of_rat y
               then (fst (set_number_node node data), Inr True) else (node, Inr False))"
    using h vals
    by (auto simp: compare_and_set_value_def number_changed_def is_number_def
        set_number_node_def split: prod.splits option.splits bool.splits)
next
  assume h: "data_type node = ''number'' \<and> \<not> is_number old_data"
  then show "compare_and_set_value original modified stk index node =
              (case set_number_node node data of
                 (node', None) \<Rightarrow> (node', Inr True)
               | (node', Some e) \<Rightarrow> (node', Inl e))"
    using vals
    by (auto simp: compare_and_set_value_def number_changed_def split: prod.splits option.splits)
next
  assume h: "data_type node = ''number'' \<and> is_number old_data \<and> \<not> is_number data"
  then show "compare_and_set_value original modified stk index node = (node, Inr False)"
    using vals
    by (auto simp: compare_and_set_value_def number_changed_def split: prod.splits option.splits)
next
  assume "data_type node = ''number''" "\<not> is_number data"
  then show "set_number_node node data = (node, None)"
    by (simp add: set_number_node_not_number)
next
  assume "data_type node = ''number''" "is_number data"
  then show "node_value (fst (set_number_node node data)) = data"
    by (simp add: set_number_node_value)
next
  assume "data_type node = ''number''"
  then show "snd (set_number_node node data) =
              (case data of
                 PFloat PosInf \<Rightarrow> Some OverflowError
               | PFloat NegInf \<Rightarrow> Some OverflowError
               | PInt n \<Rightarrow> (case float_of_int n of Inl e \<Rightarrow> Some e | Inr f \<Rightarrow> None)
               | _ \<Rightarrow> None)"
    by (rule set_number_node_raises_iff)
next
  assume "data_type node \<noteq> ''number''"
  then show "compare_and_set_value original modified stk index node =
            (if py_eq old_data data then (node, Inr False)
             else (node\<lparr>node_value := data\<rparr>, Inr True))"
    using vals by (simp add: compare_and_set_value_def)
next
  show "single_of_rat (4503824807351865 / 4503599627370496)
            \<noteq> single_of_rat (4503779771355591 / 4503599627370496)"
    by (simp add: single_100005 single_100004)
  show "single_of_rat 1 \<noteq> single_of_rat (4504049987333233 / 4503599627370496)"
    by (simp add: single_1 single_10001)
qed

theorem numeric_diff_at_single_precision_witness:
  "values_at (PList [PFloat (Fin 1)]) (PList [PFloat (Fin (4504049987333233 / 4503599627370496))])
      [] (PInt 0) = Inr (PFloat (Fin 1), PFloat (Fin (4504049987333233 / 4503599627370496)))
   \<and> snd (compare_and_set_value (PList [PFloat (Fin 1)])
        (PList [PFloat (Fin (4504049987333233 / 4503599627370496))]) [] (PInt 0)
        \<lparr> data_type = ''number'', node_value = PFloat (Fin 1), precision = Some 0 \<rparr>) = Inr True"
proof -
  have vals: "values_at (PList [PFloat (Fin 1)])
      (PList [PFloat (Fin (4504049987333233 / 4503599627370496))])
      [] (PInt 0) = Inr (PFloat (Fin 1), PFloat (Fin (4504049987333233 / 4503599627370496)))"
    by (simp add: values_at_def py_index_def)
  show ?thesis
    using vals single_1 single_10001
      numeric_diff_at_single_precision[OF vals,
        of "\<lparr> data_type = ''number'', node_value = PFloat (Fin 1), precision = Some 0 \<rparr>"
           1 "4504049987333233 / 4503599627370496"]
    by simp
qed

text \<open>
  C3, as the claim states it, says that a change from 1.00005 to 1.00004 is not flagged.
  The two doubles round to different 32-bit floats (8389027 / 8388608 and
  8388944 / 8388608), so the token is flagged and rewritten.
\<close>

theorem same_rendering_is_flagged_changed:
  "snd (compare_and_set_value
          (PList [PFloat (Fin (4503824807351865 / 4503599627370496))])
          (PList [PFloat (Fin (4503779771355591 / 4503599627370496))]) [] (PInt 0)
          \<lparr> data_type = ''number'',
            node_value = PFloat (Fin (4503824807351865 / 4503599627370496)),
            precision = Some 4 \<rparr>) = Inr True
   \<and> node_value (fst (compare_and_set_value
          (PList [PFloat (Fin (4503824807351865 / 4503599627370496))])
          (PList [PFloat (Fin (4503779771355591 / 4503599627370496))]) [] (PInt 0)
          \<lparr> data_type = ''number'',
            node_value = PFloat (Fin (4503824807351865 / 4503599627370496)),
            precision = Some 4 \<rparr>)) = PFloat (Fin (4503779771355591 / 4503599627370496))"
  by (simp add: compare_and_set_value_def values_at_def py_index_def number_changed_def
      is_number_def  set_number_node_def single_100005 single_100004)

subsection \<open>The node reconciler\<close>

lemma single_0: "single_of_rat 0 = Fin 0"
  by (simp add: single_of_rat_def round_to_binary_def Let_def)

lemma map_of_dict_set:
  "map_of (dict_set d k v) k' = (if k' = k then Some v else map_of d k')"
  by (induction d) auto

lemma set_dict_set: "x \<in> set (dict_set d k v) \<Longrightarrow> x = (k, v) \<or> x \<in> set d"
  by (induction d) (auto split: if_splits)

lemma scan_verts_inv:
  assumes "scan_verts part verts (origins, renames, nodes) = (verts', origins', renames', nodes')"
    and "origin_has_blender part origins nodes" and "jbeam_has_blender nodes"
  shows "origin_has_blender part origins' nodes' \<and> jbeam_has_blender nodes'"
  using assms
proof (induction verts arbitrary: origins renames nodes verts')
  case Nil
  then show ?case by simp
next
  case (Cons v verts)
  show ?case
  proof (cases "v_part_origin v = part")
    case False
    let ?o1 = "dict_set origins (v_node_id v) (v_part_origin v)"
    obtain vs r where s: "scan_verts part verts (?o1, renames, nodes) = (vs, r)"
      by (cases "scan_verts part verts (?o1, renames, nodes)") auto
    have r: "r = (origins', renames', nodes')"
      using Cons.prems(1) False s by (simp add: Let_def)
    have "origin_has_blender part ?o1 nodes"
      using Cons.prems(2) False by (auto simp: origin_has_blender_def map_of_dict_set)
    from Cons.IH[OF s[unfolded r] this Cons.prems(3)] show ?thesis .
  next
    case True
    let ?o1 = "dict_set origins (v_node_id v) (v_part_origin v)"
    let ?r1 = "if v_init_node_id v \<noteq> v_node_id v
               then dict_set renames (v_init_node_id v) (v_node_id v) else renames"
    let ?ent = "(entry_of nodes (v_node_id v))
                  \<lparr>blender_node := Some (v_init_node_id v, v_node_id v,
                      (c_float (fst (v_new_pos v)), c_float (fst (snd (v_new_pos v))),
                       c_float (snd (snd (v_new_pos v)))))\<rparr>"
    let ?n1 = "dict_set nodes (v_node_id v) ?ent"
    obtain vs r where s: "scan_verts part verts (?o1, ?r1, ?n1) = (vs, r)"
      by (cases "scan_verts part verts (?o1, ?r1, ?n1)") auto
    have r: "r = (origins', renames', nodes')"
      using Cons.prems(1) True s by (simp add: Let_def)
    have a: "origin_has_blender part ?o1 ?n1"
      using Cons.prems(2) by (auto simp: origin_has_blender_def map_of_dict_set)
    have b: "jbeam_has_blender ?n1"
      using Cons.prems(3)
      by (auto simp: jbeam_has_blender_def dest!: set_dict_set)
    from Cons.IH[OF s[unfolded r] a b] show ?thesis .
  qed
qed

lemma scan_rows_inv:
  assumes "scan_rows part origins rows nodes = Inr nodes'"
    and "origin_has_blender part origins nodes" and "jbeam_has_blender nodes"
  shows "jbeam_has_blender nodes'"
  using assms
proof (induction rows arbitrary: nodes)
  case Nil
  then show ?case by simp
next
  case (Cons r rest)
  show ?case
  proof (cases r)
    case (Inl e)
    with Cons.prems(1) show ?thesis by simp
  next
    case (Inr row_data)
    show ?thesis
    proof (cases "\<exists>cells. row_data = PList cells")
      case False
      then have "scan_rows part origins rest nodes = Inr nodes'"
        using Cons.prems(1) Inr by (cases row_data) auto
      from Cons.IH[OF this Cons.prems(2,3)] show ?thesis .
    next
      case True
      then obtain cells where c: "row_data = PList cells" by blast
      from Cons.prems(1) Inr c obtain curr where i0: "py_index cells 0 = Inr curr"
        by (cases "py_index cells 0") auto
      from Cons.prems(1) Inr c i0 obtain k origin where
        po: "part_origin_of origins curr = Inr (k, origin)"
        by (cases "part_origin_of origins curr") auto
      have ko: "map_of origins k = Some origin"
        using po by (auto simp: part_origin_of_def split: pyval.splits option.splits)
      show ?thesis
      proof (cases "part = origin")
        case False
        then have "scan_rows part origins rest nodes = Inr nodes'"
          using Cons.prems(1) Inr c i0 po by simp
        from Cons.IH[OF this Cons.prems(2,3)] show ?thesis .
      next
        case True
        from Cons.prems(1) Inr c i0 po True obtain p where rp: "row_pos cells = Inr p"
          by (cases "row_pos cells") auto
        let ?ent = "(entry_of nodes k)\<lparr>jbeam_node := Some (k, p)\<rparr>"
        let ?n1 = "dict_set nodes k ?ent"
        have s: "scan_rows part origins rest ?n1 = Inr nodes'"
          using Cons.prems(1) Inr c i0 po True rp by simp
        from Cons.prems(2) ko True obtain e where
          e: "map_of nodes k = Some e" "blender_node e \<noteq> None"
          by (auto simp: origin_has_blender_def)
        have bl: "blender_node ?ent \<noteq> None" using e by (simp add: entry_of_def)
        have a: "origin_has_blender part origins ?n1"
          using Cons.prems(2) bl by (auto simp: origin_has_blender_def map_of_dict_set)
        have b: "jbeam_has_blender ?n1"
          using Cons.prems(3) bl
          by (auto simp: jbeam_has_blender_def dest!: set_dict_set)
        from Cons.IH[OF s a b] show ?thesis .
      qed
    qed
  qed
qed

lemma sort_nodes_no_delete:
  "jbeam_has_blender nodes \<Longrightarrow>
   nodes_to_delete (sort_nodes nodes st) = nodes_to_delete st
   \<and> true_node_renames (sort_nodes nodes st) = true_node_renames st"
proof (induction nodes arbitrary: st)
  case Nil
  then show ?case by simp
next
  case (Cons x nodes)
  obtain k data where x: "x = (k, data)" by (cases x)
  have t: "jbeam_has_blender nodes" using Cons.prems by (simp add: jbeam_has_blender_def)
  have h: "jbeam_node data \<noteq> None \<longrightarrow> blender_node data \<noteq> None"
    using Cons.prems x by (simp add: jbeam_has_blender_def)
  show ?case using Cons.IH[OF t] h
    by (auto simp: x split: option.splits)
qed

lemma rename_by_identity_no_delete:
  "nodes_to_delete st = [] \<Longrightarrow> rename_by_identity rs st = st"
  by (induction rs st rule: rename_by_identity.induct) (auto simp: dict_has_def)

lemma rename_by_position_no_delete:
  "nodes_to_delete st = [] \<Longrightarrow> rename_by_position st = Inr st"
  by (simp add: rename_by_position_def)

lemma reconciler_never_deletes:
  assumes "snd (get_nodes_add_delete_rename verts data part) = Inr (adds, deletes, renames, data')"
  shows "deletes = [] \<and> renames = []"
proof -
  obtain verts' origins rn nodes0 where sv: "scan_verts part verts ([], [], []) = (verts', origins, rn, nodes0)"
    by (cases "scan_verts part verts ([], [], [])") auto
  have i0: "origin_has_blender part origins nodes0 \<and> jbeam_has_blender nodes0"
    by (rule scan_verts_inv[OF sv]) (simp_all add: origin_has_blender_def jbeam_has_blender_def)
  let ?scan = "(case nodes_section_of data part of
                    Inl e \<Rightarrow> Inl e
                  | Inr None \<Rightarrow> Inr nodes0
                  | Inr (Some nodes_section) \<Rightarrow>
                      (case indexed_rows nodes_section of
                         Inl e \<Rightarrow> Inl e
                       | Inr rows \<Rightarrow> scan_rows part origins rows nodes0))"
  from assms sv obtain nodes where sc: "?scan = Inr nodes"
    by (cases ?scan) (auto simp: get_nodes_add_delete_rename_def)
  have jb: "jbeam_has_blender nodes"
    using sc i0 scan_rows_inv[of part origins _ nodes0 nodes]
    by (auto split: sum.splits option.splits)
  let ?st0 = "sort_nodes nodes \<lparr> nodes_to_add = [], nodes_to_delete = [], true_node_renames = [] \<rparr>"
  have d0: "nodes_to_delete ?st0 = []" "true_node_renames ?st0 = []"
    using sort_nodes_no_delete[OF jb] by simp_all
  have st1: "rename_by_identity rn ?st0 = ?st0"
    by (rule rename_by_identity_no_delete[OF d0(1)])
  have st2: "rename_by_position ?st0 = Inr ?st0"
    by (rule rename_by_position_no_delete[OF d0(1)])
  show ?thesis
    using assms sv sc st1 st2 d0
    by (auto simp: get_nodes_add_delete_rename_def Let_def split: sum.splits)
qed

lemma scan_verts_origins:
  "scan_verts part verts (origins, renames, nodes) = (verts', origins', renames', nodes') \<Longrightarrow>
   (map_of origins' s = None \<longleftrightarrow> map_of origins s = None \<and> s \<notin> v_node_id ` set verts)"
proof (induction verts arbitrary: origins renames nodes verts')
  case Nil
  then show ?case by simp
next
  case (Cons v verts)
  let ?o1 = "dict_set origins (v_node_id v) (v_part_origin v)"
  show ?case
  proof (cases "v_part_origin v = part")
    case False
    obtain vs r where s: "scan_verts part verts (?o1, renames, nodes) = (vs, r)"
      by (cases "scan_verts part verts (?o1, renames, nodes)") auto
    have r: "r = (origins', renames', nodes')"
      using Cons.prems(1) False s by (simp add: Let_def)
    from Cons.IH[OF s[unfolded r]] show ?thesis by (auto simp: map_of_dict_set)
  next
    case True
    let ?r1 = "if v_init_node_id v \<noteq> v_node_id v
               then dict_set renames (v_init_node_id v) (v_node_id v) else renames"
    let ?n1 = "dict_set nodes (v_node_id v) ((entry_of nodes (v_node_id v))
                  \<lparr>blender_node := Some (v_init_node_id v, v_node_id v,
                      (c_float (fst (v_new_pos v)), c_float (fst (snd (v_new_pos v))),
                       c_float (snd (snd (v_new_pos v)))))\<rparr>)"
    obtain vs r where s: "scan_verts part verts (?o1, ?r1, ?n1) = (vs, r)"
      by (cases "scan_verts part verts (?o1, ?r1, ?n1)") auto
    have r: "r = (origins', renames', nodes')"
      using Cons.prems(1) True s by (simp add: Let_def)
    from Cons.IH[OF s[unfolded r]] show ?thesis by (auto simp: map_of_dict_set)
  qed
qed

lemma scan_rows_unknown_id:
  "PList (PStr s # cells) \<in> set rows \<Longrightarrow> map_of origins s = None \<Longrightarrow>
   \<exists>e. scan_rows part origins (map Inr rows) nodes = Inl e"
proof (induction rows arbitrary: nodes)
  case Nil
  then show ?case by simp
next
  case (Cons r rest)
  show ?case
  proof (cases "r = PList (PStr s # cells)")
    case True
    then show ?thesis using Cons.prems(2)
      by (simp add: py_index_def part_origin_of_def)
  next
    case False
    then have "PList (PStr s # cells) \<in> set rest" using Cons.prems(1) by simp
    from Cons.IH[OF this Cons.prems(2)] have ih: "\<And>nodes. \<exists>e. scan_rows part origins (map Inr rest) nodes = Inl e"
      by blast
    show ?thesis
    proof (cases "scan_rows part origins (map Inr (r # rest)) nodes")
      case (Inl e)
      then show ?thesis by blast
    next
      case (Inr nodes')
      then obtain n1 where "scan_rows part origins (map Inr rest) n1 = Inr nodes'"
        by (cases r) (auto split: sum.splits prod.splits if_splits)
      with ih[of n1] show ?thesis by simp
    qed
  qed
qed

lemma disk_only_raises:
  assumes "pd_get data (KStr part) = Some (PDict p)"
    and "pd_get p (KStr ''nodes'') = Some (PList (header # rows))"
    and "PList (PStr s # cells) \<in> set rows"
    and "s \<notin> v_node_id ` set (verts :: bm_vert list)"
  shows "\<exists>e. snd (get_nodes_add_delete_rename verts data part) = Inl e"
proof -
  obtain verts' origins rn nodes0 where
    sv: "scan_verts part verts ([], [], []) = (verts', origins, rn, nodes0)"
    by (cases "scan_verts part verts ([], [], [])") auto
  have "map_of origins s = None"
    using scan_verts_origins[OF sv, of s] assms(4) by simp
  from scan_rows_unknown_id[OF assms(3) this] obtain e where
    "scan_rows part origins (map Inr rows) nodes0 = Inl e" by blast
  then have "snd (get_nodes_add_delete_rename verts data part) = Inl e"
    using sv assms(1,2)
    by (simp add: get_nodes_add_delete_rename_def nodes_section_of_def indexed_rows_def
        pd_has_def pd_item_def)
  then show ?thesis by blast
qed

text \<open>
  C4. The claim is about the delete-candidates and add-candidates that are left for the
  rename by position: a node of the file only and a node of the mesh only at one position
  are to be recorded as a rename, and the candidates at an ambiguous position are to stay
  independent adds and deletes. The function never gets there with a delete-candidate. It
  reads \<open>node_id_to_part_origin[curr_node_id]\<close> for each row of the file, and the keys
  of that dict are the node ids of the mesh, so that a node of the file only raises
  \<open>KeyError\<close>: with the node \<open>a2\<close> in the mesh and the node \<open>a1\<close> in the file, both at
  (0, 0, 1), the call raises instead of reporting the rename of \<open>a1\<close> to \<open>a2\<close>, and so
  it does with \<open>a1\<close>, \<open>a2\<close> in the mesh and \<open>d1\<close>, \<open>d2\<close> in the file, all four at
  one position. In general, a call whose file has a row with an id that no vertex has
  raises, and a call that returns has no node to delete and no rename.
\<close>

theorem disk_only_node_makes_reconciler_raise:
  "snd (get_nodes_add_delete_rename
      [\<lparr> v_init_node_id = ''a2'', v_node_id = ''a2'', v_part_origin = ''part1'',
         v_new_pos = (Fin 0, Fin 0, Fin 1) \<rparr>]
      [(KStr ''part1'', PDict [(KStr ''nodes'', PList [
          PList [PStr ''id'', PStr ''posX'', PStr ''posY'', PStr ''posZ''],
          PList [PStr ''a1'', PInt 0, PInt 0, PInt 1]])])]
      ''part1'') = Inl KeyError
   \<and> snd (get_nodes_add_delete_rename
      [\<lparr> v_init_node_id = ''a1'', v_node_id = ''a1'', v_part_origin = ''part1'',
         v_new_pos = (Fin 0, Fin 0, Fin 1) \<rparr>,
       \<lparr> v_init_node_id = ''a2'', v_node_id = ''a2'', v_part_origin = ''part1'',
         v_new_pos = (Fin 0, Fin 0, Fin 1) \<rparr>]
      [(KStr ''part1'', PDict [(KStr ''nodes'', PList [
          PList [PStr ''id'', PStr ''posX'', PStr ''posY'', PStr ''posZ''],
          PList [PStr ''d1'', PInt 0, PInt 0, PInt 1],
          PList [PStr ''d2'', PInt 0, PInt 0, PInt 1]])])]
      ''part1'') = Inl KeyError
   \<and> (\<forall>(verts :: bm_vert list) data part p header rows s cells.
         pd_get data (KStr part) = Some (PDict p)
         \<and> pd_get p (KStr ''nodes'') = Some (PList (header # rows))
         \<and> PList (PStr s # cells) \<in> set rows
         \<and> s \<notin> v_node_id ` set verts \<longrightarrow>
         (\<exists>e. snd (get_nodes_add_delete_rename verts data part) = Inl e))
   \<and> (\<forall>verts data part adds deletes renames data'.
         snd (get_nodes_add_delete_rename verts data part) = Inr (adds, deletes, renames, data')
         \<longrightarrow> deletes = [] \<and> renames = [])"
proof (intro conjI allI impI)
  show "snd (get_nodes_add_delete_rename
      [\<lparr> v_init_node_id = ''a2'', v_node_id = ''a2'', v_part_origin = ''part1'',
         v_new_pos = (Fin 0, Fin 0, Fin 1) \<rparr>]
      [(KStr ''part1'', PDict [(KStr ''nodes'', PList [
          PList [PStr ''id'', PStr ''posX'', PStr ''posY'', PStr ''posZ''],
          PList [PStr ''a1'', PInt 0, PInt 0, PInt 1]])])]
      ''part1'') = Inl KeyError"
    by (simp add: get_nodes_add_delete_rename_def nodes_section_of_def indexed_rows_def
      part_origin_of_def py_index_def pd_item_def pd_has_def entry_of_def single_0 single_1
      Let_def)
  show "snd (get_nodes_add_delete_rename
      [\<lparr> v_init_node_id = ''a1'', v_node_id = ''a1'', v_part_origin = ''part1'',
         v_new_pos = (Fin 0, Fin 0, Fin 1) \<rparr>,
       \<lparr> v_init_node_id = ''a2'', v_node_id = ''a2'', v_part_origin = ''part1'',
         v_new_pos = (Fin 0, Fin 0, Fin 1) \<rparr>]
      [(KStr ''part1'', PDict [(KStr ''nodes'', PList [
          PList [PStr ''id'', PStr ''posX'', PStr ''posY'', PStr ''posZ''],
          PList [PStr ''d1'', PInt 0, PInt 0, PInt 1],
          PList [PStr ''d2'', PInt 0, PInt 0, PInt 1]])])]
      ''part1'') = Inl KeyError"
    by (simp add: get_nodes_add_delete_rename_def nodes_section_of_def indexed_rows_def
      part_origin_of_def py_index_def pd_item_def pd_has_def entry_of_def single_0 single_1
      Let_def)
next
  fix verts :: "bm_vert list" and data part p header rows s cells
  assume "pd_get data (KStr part) = Some (PDict p)
         \<and> pd_get p (KStr ''nodes'') = Some (PList (header # rows))
         \<and> PList (PStr s # cells) \<in> set rows
         \<and> s \<notin> v_node_id ` set verts"
  then show "\<exists>e. snd (get_nodes_add_delete_rename verts data part) = Inl e"
    using disk_only_raises[of data part p header rows s cells verts] by blast
next
  fix verts data part adds deletes renames data'
  assume a: "snd (get_nodes_add_delete_rename verts data part) = Inr (adds, deletes, renames, data')"
  show "deletes = []" using reconciler_never_deletes[OF a] by simp
  show "renames = []" using reconciler_never_deletes[OF a] by simp
qed

theorem disk_only_node_makes_reconciler_raise_witness:
  "snd (get_nodes_add_delete_rename
      [\<lparr> v_init_node_id = ''a1'', v_node_id = ''a1'', v_part_origin = ''part1'',
         v_new_pos = (Fin 0, Fin 0, Fin 1) \<rparr>,
       \<lparr> v_init_node_id = ''a2'', v_node_id = ''a2'', v_part_origin = ''part1'',
         v_new_pos = (Fin 1, Fin 0, Fin 0) \<rparr>]
      [(KStr ''part1'', PDict [(KStr ''nodes'', PList [
          PList [PStr ''id'', PStr ''posX'', PStr ''posY'', PStr ''posZ''],
          PList [PStr ''a1'', PInt 0, PInt 0, PInt 0]])])]
      ''part1'') =
    Inr ([(''a2'', (Fin 1, Fin 0, Fin 0))], [], [],
         [(KStr ''part1'', PDict [(KStr ''nodes'', PList [
            PList [PStr ''id'', PStr ''posX'', PStr ''posY'', PStr ''posZ''],
            PList [PStr ''a1'', PFloat (Fin 0), PFloat (Fin 0), PFloat (Fin 1)]])])])"
proof -
  have r: "\<exists>adds deletes renames data'. snd (get_nodes_add_delete_rename
      [\<lparr> v_init_node_id = ''a1'', v_node_id = ''a1'', v_part_origin = ''part1'',
         v_new_pos = (Fin 0, Fin 0, Fin 1) \<rparr>,
       \<lparr> v_init_node_id = ''a2'', v_node_id = ''a2'', v_part_origin = ''part1'',
         v_new_pos = (Fin 1, Fin 0, Fin 0) \<rparr>]
      [(KStr ''part1'', PDict [(KStr ''nodes'', PList [
          PList [PStr ''id'', PStr ''posX'', PStr ''posY'', PStr ''posZ''],
          PList [PStr ''a1'', PInt 0, PInt 0, PInt 0]])])]
      ''part1'') =
    Inr (adds, deletes, renames, data')
    \<and> adds = [(''a2'', (Fin 1, Fin 0, Fin 0))]
    \<and> data' = [(KStr ''part1'', PDict [(KStr ''nodes'', PList [
            PList [PStr ''id'', PStr ''posX'', PStr ''posY'', PStr ''posZ''],
            PList [PStr ''a1'', PFloat (Fin 0), PFloat (Fin 0), PFloat (Fin 1)]])])]"
    by (simp add: get_nodes_add_delete_rename_def nodes_section_of_def indexed_rows_def
      part_origin_of_def py_index_def pd_item_def pd_has_def entry_of_def single_0 single_1
      row_pos_def float_of_int_def round_to_binary_def rename_by_position_def dict_has_def
      update_section_def update_row_def Let_def)
  then obtain adds deletes renames data' where
    h: "snd (get_nodes_add_delete_rename
      [\<lparr> v_init_node_id = ''a1'', v_node_id = ''a1'', v_part_origin = ''part1'',
         v_new_pos = (Fin 0, Fin 0, Fin 1) \<rparr>,
       \<lparr> v_init_node_id = ''a2'', v_node_id = ''a2'', v_part_origin = ''part1'',
         v_new_pos = (Fin 1, Fin 0, Fin 0) \<rparr>]
      [(KStr ''part1'', PDict [(KStr ''nodes'', PList [
          PList [PStr ''id'', PStr ''posX'', PStr ''posY'', PStr ''posZ''],
          PList [PStr ''a1'', PInt 0, PInt 0, PInt 0]])])]
      ''part1'') = Inr (adds, deletes, renames, data')"
     "adds = [(''a2'', (Fin 1, Fin 0, Fin 0))]"
     "data' = [(KStr ''part1'', PDict [(KStr ''nodes'', PList [
            PList [PStr ''id'', PStr ''posX'', PStr ''posY'', PStr ''posZ''],
            PList [PStr ''a1'', PFloat (Fin 0), PFloat (Fin 0), PFloat (Fin 1)]])])]"
    by blast
  from disk_only_node_makes_reconciler_raise have
    "\<forall>verts data part adds deletes renames data'.
         snd (get_nodes_add_delete_rename verts data part) = Inr (adds, deletes, renames, data')
         \<longrightarrow> deletes = [] \<and> renames = []"
    by (elim conjE)
  from this[rule_format, OF h(1)] h show ?thesis by simp
qed

end
